theory Spec2Isabelle
  imports Complex_Main "HOL-Library.Word"
begin

unbundle bit_operations_syntax

section \<open>Machine integers and fixed-layout fields\<close>

text \<open>
  The driver (\<^verbatim>\<open>src/rift.c\<close>) works on fixed-width C integers. They are modelled as
  words: \<^verbatim>\<open>uint8_t\<close>, \<^verbatim>\<open>uint16_t\<close>, \<^verbatim>\<open>uint32_t\<close> and \<^verbatim>\<open>uint64_t\<close> are
  \<open>8 word\<close>, \<open>16 word\<close>, \<open>32 word\<close> and \<open>64 word\<close>; the signed types share the
  representation and are read with \<open>sint\<close>. Arithmetic that C performs in \<^verbatim>\<open>int\<close> after
  integer promotion is written on \<open>int\<close> where it cannot leave the range of \<^verbatim>\<open>int\<close>:
  the products of a sample count (at most 256) and a report interval the driver stores
  (at most 1000000), with 75 added or subtracted, and the rates. The one sum that
  can leave the range, \<^verbatim>\<open>dt + 1\<close> of the sensor message decoder at
  \<open>dt = 2 ^ 31 - 1\<close>, is computed on 32 bits with wrap-around, as the compiled code
  computes it. \<^verbatim>\<open>float\<close> and \<^verbatim>\<open>double\<close> values are modelled as \<open>real\<close>: the rounding
  of the single floating-point multiplication behind each of them is not modelled.
\<close>

type_synonym u8 = "8 word"
type_synonym u16 = "16 word"
type_synonym u32 = "32 word"
type_synonym u64 = "64 word"

text \<open>
  A \<^verbatim>\<open>__be64\<close> is eight bytes in memory order, most significant byte first;
  \<^verbatim>\<open>__be64_to_cpu\<close> assembles the host value.
\<close>

record be64 =
  b0 :: u8
  b1 :: u8
  b2 :: u8
  b3 :: u8
  b4 :: u8
  b5 :: u8
  b6 :: u8
  b7 :: u8

definition be64_to_cpu :: "be64 \<Rightarrow> u64" where
  "be64_to_cpu b =
     push_bit 56 (ucast (b0 b)) OR push_bit 48 (ucast (b1 b)) OR
     push_bit 40 (ucast (b2 b)) OR push_bit 32 (ucast (b3 b)) OR
     push_bit 24 (ucast (b4 b)) OR push_bit 16 (ucast (b5 b)) OR
     push_bit 8 (ucast (b6 b)) OR ucast (b7 b)"

record vec3 =
  x :: real
  y :: real
  z :: real

text \<open>
  \<^verbatim>\<open>unpack_3x21bit\<close> (rift.c, lines 64-71). \<^verbatim>\<open>(int64_t)xyz >> 43\<close> is the arithmetic
  right shift of the two's complement reading (\<open>signed_drop_bit\<close>), \<^verbatim>\<open>xyz << 21\<close> the
  shift left on 64 bits (\<open>push_bit\<close> on a \<open>64 word\<close>).
\<close>

definition unpack_3x21bit :: "real \<Rightarrow> be64 \<Rightarrow> vec3" where
  "unpack_3x21bit scale buf =
    (let xyz = be64_to_cpu buf in
     \<lparr>x = scale * real_of_int (sint (signed_drop_bit 43 xyz)),
      y = scale * real_of_int (sint (signed_drop_bit 43 (push_bit 21 xyz))),
      z = scale * real_of_int (sint (signed_drop_bit 43 (push_bit 42 xyz)))\<rparr>)"

subsection \<open>The encoder of the specification\<close>

text \<open>
  The repository has no encoder for the 21-bit triplet. \<open>pack_3x21bit\<close> follows the
  words of the specification: three signed 21-bit two's complement values in one 64-bit
  word, the first in the top 21 bits, then the next 21, then the bottom 21 above an
  unused bit 0; the word is stored big-endian.
\<close>

definition cpu_to_be64 :: "u64 \<Rightarrow> be64" where
  "cpu_to_be64 w =
     \<lparr>b0 = ucast (drop_bit 56 w), b1 = ucast (drop_bit 48 w),
      b2 = ucast (drop_bit 40 w), b3 = ucast (drop_bit 32 w),
      b4 = ucast (drop_bit 24 w), b5 = ucast (drop_bit 16 w),
      b6 = ucast (drop_bit 8 w), b7 = ucast w\<rparr>"

definition pack_word :: "int \<Rightarrow> int \<Rightarrow> int \<Rightarrow> u64" where
  "pack_word vx vy vz =
     push_bit 43 (word_of_int (take_bit 21 vx)) OR
     push_bit 22 (word_of_int (take_bit 21 vy)) OR
     push_bit 1 (word_of_int (take_bit 21 vz))"

definition pack_3x21bit :: "int \<Rightarrow> int \<Rightarrow> int \<Rightarrow> be64" where
  "pack_3x21bit vx vy vz = cpu_to_be64 (pack_word vx vy vz)"

definition fits_21bit :: "int \<Rightarrow> bool" where
  "fits_21bit v \<longleftrightarrow> - (2 ^ 20) \<le> v \<and> v < 2 ^ 20"

section \<open>Device state and collaborators\<close>

text \<open>
  C's integer division truncates towards zero; \<open>div\<close> on \<open>int\<close> rounds down.
  \<open>c_div\<close> is the C operator for a divisor that is not zero; a zero divisor is a trap
  (\<open>Division_by_zero\<close> below) and is tested before \<open>c_div\<close> is used.
\<close>

definition c_div :: "int \<Rightarrow> int \<Rightarrow> int" where
  "c_div a b = (if (a < 0) = (b < 0) then \<bar>a\<bar> div \<bar>b\<bar> else - (\<bar>a\<bar> div \<bar>b\<bar>))"

datatype fault = Division_by_zero

datatype rift_type = RIFT_DK2 | RIFT_CV1

text \<open>44 LEDs + 1 IMU on CV1 (rift.c, line 29).\<close>

definition MAX_POSITIONS :: int where
  "MAX_POSITIONS = 45"

text \<open>\<^verbatim>\<open>EINVAL\<close> of \<^verbatim>\<open><errno.h>\<close> on Linux.\<close>

definition EINVAL :: int where
  "EINVAL = 22"

text \<open>
  \<^verbatim>\<open>struct leds\<close> (leds.h is not part of the sources at hand): the fields rift.c uses.
  The arrays are maps from the index to the stored element, so that a store at any
  index is a store at that key.
\<close>

record leds =
  num_points :: int
  points :: "nat \<rightharpoonup> vec3"
  normals :: "nat \<rightharpoonup> vec3"
  patterns :: "nat \<rightharpoonup> u32"

record imu_sample =
  acceleration :: vec3
  angular_velocity :: vec3
  magnetic_field :: vec3
  temperature :: real
  time :: real

text \<open>
  The pose integrator \<^verbatim>\<open>pose_update\<close> is a collaborator outside rift.c. The pose is
  modelled by what determines it: the elapsed times and samples integrated so far,
  latest last.
\<close>

type_synonym pose = "(real \<times> imu_sample) list"

definition pose_update :: "real \<Rightarrow> pose \<Rightarrow> imu_sample \<Rightarrow> pose" where
  "pose_update dt p s = p @ [(dt, s)]"

text \<open>
  \<^verbatim>\<open>struct _OuvrtRift\<close> (rift.c, lines 36-56) with the fields of the embedded
  \<^verbatim>\<open>OuvrtDevice\<close> that rift.c reads (\<open>dev_id\<close>, \<open>dev_active\<close>). \<^verbatim>\<open>gboolean\<close> is
  \<open>bool\<close>; \<^verbatim>\<open>int\<close> fields are \<open>int\<close>.
\<close>

record OuvrtRift =
  dev_id :: u64
  dev_active :: bool
  hmd_type :: rift_type
  rift_leds :: leds
  imu_position :: vec3
  uuid :: "u8 list"
  report_rate :: int
  report_interval :: int
  flicker :: bool
  reboot :: bool
  boot_mode :: u8
  last_message_time :: u64
  last_sample_timestamp :: u64
  last_exposure_timestamp :: u32
  last_exposure_count :: int
  radio_pairing :: bool
  radio_address :: "u8 list"
  imu_pose :: pose

subsection \<open>Feature reports\<close>

datatype report_id =
    RIFT_CONFIG_REPORT_ID
  | RIFT_IMU_CALIBRATION_REPORT_ID
  | RIFT_RANGE_REPORT_ID
  | RIFT_POSITION_REPORT_ID
  | RIFT_LED_PATTERN_REPORT_ID
  | RIFT_UUID_REPORT_ID
  | RIFT_KEEPALIVE_REPORT_ID
  | RIFT_TRACKING_REPORT_ID
  | RIFT_DISPLAY_REPORT_ID
  | RIFT_CV1_POWER_REPORT_ID
  | RIFT_BOOTLOAD_REPORT_ID
  | RIFT_CV1_READ_FLASH_REPORT_ID

text \<open>
  The report structures are declared in rift-hid-reports.h, which is not part of the
  sources at hand. A report buffer is modelled as one record with the fields rift.c
  reads or writes, each holding the numeric value of the field (what
  \<^verbatim>\<open>__le16_to_cpu\<close> and \<^verbatim>\<open>__le32_to_cpu\<close> return). Fields converted with
  \<^verbatim>\<open>__le16_to_cpu\<close> are 16 bits wide, those converted with \<^verbatim>\<open>__le32_to_cpu\<close> 32 bits;
  flag and mode bytes are one byte. The width of \<^verbatim>\<open>packet_interval\<close> is fixed only by
  the absent header: it is the type parameter \<open>'p\<close>, instantiated with a word of any
  length.
\<close>

record 'p hid_report =
  r_id :: report_id
  r_sample_rate :: u16
  r_packet_interval :: 'p
  r_num :: u16
  r_index :: u16
  r_type :: u16
  r_pos0 :: u32
  r_pos1 :: u32
  r_pos2 :: u32
  r_dir0 :: u16
  r_dir1 :: u16
  r_dir2 :: u16
  r_pattern_length :: u8
  r_pattern :: u32
  r_uuid :: "u8 list"
  r_vsync_offset :: u16
  r_duty_cycle :: u8
  r_exposure_us :: u16
  r_period_us :: u16
  r_tracking_pattern :: u8
  r_tracking_flags :: u8
  r_brightness :: u8
  r_persistence :: u16
  r_total_rows :: u16
  r_flags2 :: u8
  r_components :: u8
  r_bootload :: u8
  r_flash_index :: u8
  r_unknown :: u8
  r_payload :: "u8 list"

text \<open>\<^verbatim>\<open>struct ... report = { .id = ... }\<close>: every other field is zero.\<close>

definition report_init :: "report_id \<Rightarrow> ('w::len) word hid_report" where
  "report_init i =
     \<lparr>r_id = i, r_sample_rate = 0, r_packet_interval = 0, r_num = 0, r_index = 0,
      r_type = 0, r_pos0 = 0, r_pos1 = 0, r_pos2 = 0, r_dir0 = 0, r_dir1 = 0,
      r_dir2 = 0, r_pattern_length = 0, r_pattern = 0, r_uuid = replicate 20 0,
      r_vsync_offset = 0, r_duty_cycle = 0, r_exposure_us = 0, r_period_us = 0,
      r_tracking_pattern = 0, r_tracking_flags = 0, r_brightness = 0,
      r_persistence = 0, r_total_rows = 0, r_flags2 = 0, r_components = 0,
      r_bootload = 0, r_flash_index = 0, r_unknown = 0, r_payload = replicate 64 0\<rparr>"

text \<open>
  The constants of rift-hid-reports.h are parameters of the model: every function that
  uses one takes the record \<open>K\<close> of their values.
\<close>

record rift_hid_consts =
  RIFT_BOOT_NORMAL :: int
  RIFT_BOOT_BOOTLOADER :: int
  RIFT_BOOT_RADIO_PAIRING :: int
  RIFT_POSITION_LED :: int
  RIFT_POSITION_IMU :: int
  RIFT_TRACKING_ENABLE :: u8
  RIFT_TRACKING_USE_CARRIER :: u8
  RIFT_TRACKING_AUTO_INCREMENT :: u8
  RIFT_TRACKING_VSYNC_OFFSET :: u16
  RIFT_TRACKING_DUTY_CYCLE :: u8
  RIFT_TRACKING_EXPOSURE_US_CV1 :: u16
  RIFT_TRACKING_PERIOD_US_CV1 :: u16
  RIFT_TRACKING_EXPOSURE_US_DK2 :: u16
  RIFT_TRACKING_PERIOD_US_DK2 :: u16
  RIFT_DISPLAY_READ_PIXEL :: u8
  RIFT_DISPLAY_DIRECT_PENTILE :: u8
  RIFT_CV1_POWER_DISPLAY :: u8
  RIFT_CV1_POWER_AUDIO :: u8
  RIFT_CV1_POWER_LEDS :: u8

subsection \<open>The world outside the driver\<close>

text \<open>
  Diagnostics of the sensor message decoder (its three \<^verbatim>\<open>g_print\<close> calls), with the
  values printed. The other \<^verbatim>\<open>g_print\<close> calls of rift.c only log and are left out.
\<close>

datatype diagnostic =
    Got_samples_after u8 int
  | Samples_lost u8 int int
  | Too_much_jitter u8 int

text \<open>What the driver does to its collaborators, in the order it does it.\<close>

datatype 'p event =
    Hid_get_feature_report report_id
  | Hid_send_feature_report "'p hid_report"
  | Radio_get_address
  | Get_firmware_version
  | Usleep nat
  | Tracker_set_radio_address "u8 list"
  | Tracker_register_leds
  | Tracker_add_exposure u32 u64 u8
  | Blobwatch_set_flicker bool
  | Telemetry_send_imu_sample u64 imu_sample
  | Telemetry_send_pose u64 pose
  | Debug_imu_fifo_in
  | Print diagnostic

text \<open>
  The transport is a collaborator. The device answers the \<open>n\<close>-th transport exchange
  with \<open>device n\<close>: the return value of the call and, for a read, the report it fills
  in. \<open>ncalls\<close> counts the exchanges made, \<open>trace\<close> records every effect.
\<close>

record 'p reply =
  reply_ret :: int
  reply_data :: "'p hid_report"

record 'p world =
  device :: "nat \<Rightarrow> 'p reply"
  ncalls :: nat
  trace :: "'p event list"

definition emit :: "'p event \<Rightarrow> 'p world \<Rightarrow> 'p world" where
  "emit e w = w\<lparr>trace := trace w @ [e]\<rparr>"

text \<open>
  A read fills the caller's buffer with the device's report of the requested id; a
  failed read leaves the buffer as it was.
\<close>

definition hid_get_feature_report ::
  "'p world \<Rightarrow> 'p hid_report \<Rightarrow> int \<times> 'p hid_report \<times> 'p world" where
  "hid_get_feature_report w report =
     (let r = device w (ncalls w);
          w = emit (Hid_get_feature_report (r_id report)) (w\<lparr>ncalls := Suc (ncalls w)\<rparr>)
      in (reply_ret r,
          if reply_ret r < 0 then report else (reply_data r)\<lparr>r_id := r_id report\<rparr>, w))"

definition hid_send_feature_report :: "'p world \<Rightarrow> 'p hid_report \<Rightarrow> int \<times> 'p world" where
  "hid_send_feature_report w report =
     (let r = device w (ncalls w);
          w = emit (Hid_send_feature_report report) (w\<lparr>ncalls := Suc (ncalls w)\<rparr>)
      in (reply_ret r, w))"

section \<open>Report codec\<close>

text \<open>
  \<^verbatim>\<open>rift_get_config\<close> (rift.c, lines 76-99). \<^verbatim>\<open>report_rate\<close> is a \<^verbatim>\<open>uint16_t\<close>;
  \<^verbatim>\<open>1000000 / report_rate\<close> traps when it is zero.
\<close>

definition rift_get_config ::
  "OuvrtRift \<Rightarrow> ('w::len) word world \<Rightarrow> (fault + int) \<times> OuvrtRift \<times> 'w word world" where
  "rift_get_config rift w =
     (case hid_get_feature_report w (report_init RIFT_CONFIG_REPORT_ID) of
        (ret, report, w) \<Rightarrow>
          if ret < 0 then (Inr ret, rift, w)
          else
            let sample_rate = r_sample_rate report;
                report_rate = (word_of_int
                  (c_div (uint sample_rate) (uint (r_packet_interval report) + 1)) :: u16)
            in if report_rate = 0 then (Inl Division_by_zero, rift, w)
               else (Inr 0,
                     rift\<lparr>report_rate := uint report_rate,
                          report_interval := c_div 1000000 (uint report_rate)\<rparr>, w))"

text \<open>
  \<^verbatim>\<open>rift_get_imu_calibration\<close> (rift.c, lines 104-141) reads the report and decodes it
  into local variables that it then drops (\<^verbatim>\<open>(void)temperature\<close>): what remains is the
  read and the return value.
\<close>

definition rift_get_imu_calibration ::
  "OuvrtRift \<Rightarrow> ('w::len) word world \<Rightarrow> int \<times> 'w word world" where
  "rift_get_imu_calibration rift w =
     (case hid_get_feature_report w (report_init RIFT_IMU_CALIBRATION_REPORT_ID) of
        (ret, report, w) \<Rightarrow> if ret < 0 then (ret, w) else (0, w))"

text \<open>
  \<^verbatim>\<open>rift_set_report_rate\<close> (rift.c, lines 146-178); \<open>rate\<close> is the requested
  \<^verbatim>\<open>report_rate\<close> argument.
\<close>

definition rift_set_report_rate ::
  "OuvrtRift \<Rightarrow> int \<Rightarrow> ('w::len) word world \<Rightarrow> int \<times> OuvrtRift \<times> 'w word world" where
  "rift_set_report_rate rift rate w =
     (case hid_get_feature_report w (report_init RIFT_CONFIG_REPORT_ID) of
        (ret, report, w) \<Rightarrow>
          if ret < 0 then (ret, rift, w)
          else
            let sample_rate = r_sample_rate report;
                report_rate = (if rate > uint sample_rate then uint sample_rate
                               else rate);
                report_rate = (if report_rate < 5 then 5 else report_rate);
                report = report\<lparr>r_packet_interval :=
                           word_of_int (c_div (uint sample_rate) report_rate - 1)\<rparr>
            in case hid_send_feature_report w report of
                 (ret, w) \<Rightarrow>
                   if ret < 0 then (ret, rift, w)
                   else (0, rift\<lparr>report_rate := report_rate,
                                 report_interval := c_div 1000000 report_rate\<rparr>, w))"

text \<open>
  \<^verbatim>\<open>rift_get_ranges\<close> (rift.c, lines 183-203): a range that differs from the expected
  one is only printed.
\<close>

definition rift_get_ranges ::
  "OuvrtRift \<Rightarrow> ('w::len) word world \<Rightarrow> int \<times> 'w word world" where
  "rift_get_ranges rift w =
     (case hid_get_feature_report w (report_init RIFT_RANGE_REPORT_ID) of
        (ret, report, w) \<Rightarrow> if ret < 0 then (ret, w) else (0, w))"

text \<open>
  Modelled from the spec: \<^verbatim>\<open>leds_init\<close> (leds.c is absent) starts the LED model with
  the given number of positions and nothing stored; \<^verbatim>\<open>vec3_normalize\<close> (maths.h is
  absent) scales a direction to an outward-facing normal of length one.
\<close>

definition leds_init :: "int \<Rightarrow> leds" where
  "leds_init n = \<lparr>num_points = n, points = Map.empty, normals = Map.empty,
                  patterns = Map.empty\<rparr>"

definition vec3_normalize :: "vec3 \<Rightarrow> vec3" where
  "vec3_normalize v =
     (let l = sqrt (x v * x v + y v * y v + z v * z v)
      in \<lparr>x = x v / l, y = y v / l, z = z v / l\<rparr>)"

text \<open>
  \<^verbatim>\<open>rift_get_positions\<close> (rift.c, lines 216-279). The loop
  \<^verbatim>\<open>for (i = 0; ; i++)\<close> ends at \<^verbatim>\<open>i + 1 == num\<close>; \<open>positions_loop\<close> counts the
  iterations that remain after the current one, \<open>unat num - 1 - i\<close>, so that the
  test is \<open>remaining = 0\<close>. (With \<open>num = 0\<close> the first iteration returns at the index
  check.) \<^verbatim>\<open>type\<close> is a \<^verbatim>\<open>uint8_t\<close>: the 16-bit field is cut to its low byte.
\<close>

definition store_position ::
  "rift_hid_consts \<Rightarrow> ('w::len) word hid_report \<Rightarrow> OuvrtRift \<Rightarrow> OuvrtRift" where
  "store_position K report rift =
     (let index = unat (r_index report);
          type = (ucast (r_type report) :: u8);
          pos = \<lparr>x = (1 / 1000000) * real_of_int (sint (r_pos0 report)),
                 y = (1 / 1000000) * real_of_int (sint (r_pos1 report)),
                 z = (1 / 1000000) * real_of_int (sint (r_pos2 report))\<rparr>
      in if uint type = RIFT_POSITION_LED K then
           let dir = vec3_normalize
                       \<lparr>x = real_of_int (sint (r_dir0 report)),
                        y = real_of_int (sint (r_dir1 report)),
                        z = real_of_int (sint (r_dir2 report))\<rparr>;
               l = rift_leds rift
           in rift\<lparr>rift_leds := l\<lparr>points := (points l)(index \<mapsto> pos),
                                      normals := (normals l)(index \<mapsto> dir)\<rparr>\<rparr>
         else if uint type = RIFT_POSITION_IMU K then rift\<lparr>imu_position := pos\<rparr>
         else rift)"

fun positions_loop ::
  "nat \<Rightarrow> rift_hid_consts \<Rightarrow> u16 \<Rightarrow> ('w::len) word hid_report \<Rightarrow> OuvrtRift \<Rightarrow>
   'w word world \<Rightarrow> int \<times> OuvrtRift \<times> 'w word world" where
  "positions_loop remaining K num report rift w =
     (if r_index report \<ge> num then (- 1, rift, w)
      else
        let rift = store_position K report rift
        in case remaining of
             0 \<Rightarrow> (0, rift, w)
           | Suc k \<Rightarrow>
               (case hid_get_feature_report w report of
                  (ret, report, w) \<Rightarrow>
                    if ret < 0 then (ret, rift, w)
                    else positions_loop k K num report rift w))"

declare positions_loop.simps [simp del]

definition rift_get_positions ::
  "rift_hid_consts \<Rightarrow> OuvrtRift \<Rightarrow> ('w::len) word world \<Rightarrow>
   int \<times> OuvrtRift \<times> 'w word world" where
  "rift_get_positions K rift w =
     (case hid_get_feature_report w (report_init RIFT_POSITION_REPORT_ID) of
        (ret, report, w) \<Rightarrow>
          if ret < 0 then (ret, rift, w)
          else
            let num = r_num report
            in if uint num > MAX_POSITIONS then (- 1, rift, w)
               else
                 let rift = rift\<lparr>rift_leds := leds_init (uint num - 1)\<rparr>
                 in positions_loop (unat num - 1) K num report rift w)"

text \<open>
  \<^verbatim>\<open>rift_get_led_patterns\<close> (rift.c, lines 284-353). \<open>convert_pattern\<close> is the block
  "Convert into 10 single-bit values 1 -> 0, 3 -> 1" (lines 331-339) on the
  \<^verbatim>\<open>uint32_t pattern\<close>. In the check of line 324, \<^verbatim>\<open>~0xaaaaa\<close> is an \<^verbatim>\<open>int\<close> that is
  converted to \<^verbatim>\<open>uint32_t\<close>: the complement on 32 bits. \<open>led_patterns_loop\<close> counts
  the remaining iterations as \<open>positions_loop\<close> does.
\<close>

definition convert_pattern :: "u32 \<Rightarrow> u32" where
  "convert_pattern pattern =
     (let pattern = pattern AND 0xaaaaa;
          pattern = pattern OR drop_bit 1 pattern;
          pattern = pattern AND 0x66666;
          pattern = pattern OR drop_bit 2 pattern;
          pattern = pattern AND 0xe1e1e;
          pattern = pattern OR drop_bit 4 pattern;
          pattern = pattern AND 0xe01fe;
          pattern = pattern OR drop_bit 8 pattern
      in drop_bit 1 pattern AND 0x3ff)"

definition decode_led_pattern :: "u8 \<Rightarrow> u32 \<Rightarrow> int + u32" where
  "decode_led_pattern pattern_length pattern =
     (if pattern_length \<noteq> 10 then Inl (- 1)
      else if pattern AND NOT 0xaaaaa \<noteq> 0x55555 then Inl (- 1)
      else Inr (convert_pattern pattern))"

fun led_patterns_loop ::
  "nat \<Rightarrow> u16 \<Rightarrow> ('w::len) word hid_report \<Rightarrow> OuvrtRift \<Rightarrow> 'w word world \<Rightarrow>
   int \<times> OuvrtRift \<times> 'w word world" where
  "led_patterns_loop remaining num report rift w =
     (if r_index report \<ge> num then (- 1, rift, w)
      else
        case decode_led_pattern (r_pattern_length report) (r_pattern report) of
          Inl e \<Rightarrow> (e, rift, w)
        | Inr pattern \<Rightarrow>
            let l = rift_leds rift;
                rift = rift\<lparr>rift_leds :=
                         l\<lparr>patterns := (patterns l)(unat (r_index report) \<mapsto> pattern)\<rparr>\<rparr>
            in (case remaining of
                  0 \<Rightarrow> (0, rift, w)
                | Suc k \<Rightarrow>
                    (case hid_get_feature_report w report of
                       (ret, report, w) \<Rightarrow>
                         if ret < 0 then (ret, rift, w)
                         else led_patterns_loop k num report rift w)))"

declare led_patterns_loop.simps [simp del]

definition rift_get_led_patterns ::
  "OuvrtRift \<Rightarrow> ('w::len) word world \<Rightarrow> int \<times> OuvrtRift \<times> 'w word world" where
  "rift_get_led_patterns rift w =
     (case hid_get_feature_report w (report_init RIFT_LED_PATTERN_REPORT_ID) of
        (ret, report, w) \<Rightarrow>
          if ret < 0 then (ret, rift, w)
          else
            let num = r_num report
            in if uint num > num_points (rift_leds rift) then (- 1, rift, w)
               else led_patterns_loop (unat num - 1) num report rift w)"

text \<open>\<^verbatim>\<open>rift_get_uuid\<close> (rift.c, lines 358-373).\<close>

definition rift_get_uuid ::
  "OuvrtRift \<Rightarrow> ('w::len) word world \<Rightarrow> int \<times> OuvrtRift \<times> 'w word world" where
  "rift_get_uuid rift w =
     (case hid_get_feature_report w (report_init RIFT_UUID_REPORT_ID) of
        (ret, report, w) \<Rightarrow>
          if ret < 0 then (ret, rift, w)
          else (0, rift\<lparr>uuid := take 20 (r_uuid report)\<rparr>, w))"

text \<open>\<^verbatim>\<open>rift_send_tracking\<close> (rift.c, lines 392-420).\<close>

definition tracking_report ::
  "rift_hid_consts \<Rightarrow> rift_type \<Rightarrow> bool \<Rightarrow> ('w::len) word hid_report" where
  "tracking_report K t blink =
     (let report = (report_init RIFT_TRACKING_REPORT_ID)
                     \<lparr>r_vsync_offset := RIFT_TRACKING_VSYNC_OFFSET K,
                      r_duty_cycle := RIFT_TRACKING_DUTY_CYCLE K\<rparr>;
          report = (if t = RIFT_CV1
                    then report\<lparr>r_exposure_us := RIFT_TRACKING_EXPOSURE_US_CV1 K,
                                r_period_us := RIFT_TRACKING_PERIOD_US_CV1 K\<rparr>
                    else report\<lparr>r_exposure_us := RIFT_TRACKING_EXPOSURE_US_DK2 K,
                                r_period_us := RIFT_TRACKING_PERIOD_US_DK2 K\<rparr>)
      in if blink
         then report\<lparr>r_tracking_pattern := 0,
                     r_tracking_flags := RIFT_TRACKING_ENABLE K OR
                                         RIFT_TRACKING_USE_CARRIER K OR
                                         RIFT_TRACKING_AUTO_INCREMENT K\<rparr>
         else report\<lparr>r_tracking_pattern := 0xff,
                     r_tracking_flags := RIFT_TRACKING_ENABLE K OR
                                         RIFT_TRACKING_USE_CARRIER K\<rparr>)"

definition rift_send_tracking ::
  "rift_hid_consts \<Rightarrow> OuvrtRift \<Rightarrow> bool \<Rightarrow> ('w::len) word world \<Rightarrow> int \<times> 'w word world" where
  "rift_send_tracking K rift blink w =
     hid_send_feature_report w (tracking_report K (hmd_type rift) blink)"

text \<open>\<^verbatim>\<open>rift_send_display\<close> (rift.c, lines 426-459).\<close>

definition rift_send_display ::
  "rift_hid_consts \<Rightarrow> OuvrtRift \<Rightarrow> bool \<Rightarrow> bool \<Rightarrow> ('w::len) word world \<Rightarrow>
   int \<times> 'w word world" where
  "rift_send_display K rift low_persistence pixel_readback w =
     (case hid_get_feature_report w (report_init RIFT_DISPLAY_REPORT_ID) of
        (ret, report, w) \<Rightarrow>
          if ret < 0 then (ret, w)
          else
            let total_rows = r_total_rows report;
                report = (if low_persistence then report\<lparr>r_brightness := 255\<rparr>
                          else report\<lparr>r_brightness := 0\<rparr>);
                persistence = (if low_persistence
                               then (word_of_int (c_div (uint total_rows * 18) 100) :: u16)
                               else total_rows);
                report = (if pixel_readback
                          then report\<lparr>r_flags2 := r_flags2 report OR
                                                     RIFT_DISPLAY_READ_PIXEL K\<rparr>
                          else report\<lparr>r_flags2 := r_flags2 report AND
                                                     NOT (RIFT_DISPLAY_READ_PIXEL K)\<rparr>);
                report = report\<lparr>r_flags2 := r_flags2 report AND
                                               NOT (RIFT_DISPLAY_DIRECT_PENTILE K)\<rparr>;
                report = report\<lparr>r_persistence := persistence\<rparr>
            in hid_send_feature_report w report)"

text \<open>\<^verbatim>\<open>rift_cv1_power_up\<close> (rift.c, lines 464-478).\<close>

definition rift_cv1_power_up ::
  "OuvrtRift \<Rightarrow> u8 \<Rightarrow> ('w::len) word world \<Rightarrow> int \<times> 'w word world" where
  "rift_cv1_power_up rift components w =
     (case hid_get_feature_report w (report_init RIFT_CV1_POWER_REPORT_ID) of
        (ret, report, w) \<Rightarrow>
          if ret < 0 then (ret, w)
          else hid_send_feature_report w
                 (report\<lparr>r_components := r_components report OR components\<rparr>))"

text \<open>\<^verbatim>\<open>rift_get_boot_mode\<close> (rift.c, lines 627-648).\<close>

definition rift_get_boot_mode ::
  "rift_hid_consts \<Rightarrow> OuvrtRift \<Rightarrow> ('w::len) word world \<Rightarrow> int \<times> 'w word world" where
  "rift_get_boot_mode K rift w =
     (case hid_get_feature_report w (report_init RIFT_BOOTLOAD_REPORT_ID) of
        (ret, report, w) \<Rightarrow>
          if ret < 0 then (ret, w)
          else if uint (r_bootload report) \<noteq> RIFT_BOOT_NORMAL K \<and>
                  uint (r_bootload report) \<noteq> RIFT_BOOT_BOOTLOADER K \<and>
                  uint (r_bootload report) \<noteq> RIFT_BOOT_RADIO_PAIRING K
          then (- EINVAL, w)
          else (uint (r_bootload report), w))"

text \<open>
  \<^verbatim>\<open>rift_read_flash\<close> (rift.c, lines 650-683); the payload copied into the caller's
  buffer is the second component of the result.
\<close>

definition rift_read_flash ::
  "rift_hid_consts \<Rightarrow> OuvrtRift \<Rightarrow> u8 \<Rightarrow> u8 list \<Rightarrow> ('w::len) word world \<Rightarrow>
   int \<times> u8 list \<times> 'w word world" where
  "rift_read_flash K rift index buf w =
     (let report = (report_init RIFT_CV1_READ_FLASH_REPORT_ID)
                     \<lparr>r_flash_index := index, r_unknown := 0x80\<rparr>
      in case rift_get_boot_mode K rift w of
           (ret, w) \<Rightarrow>
             if ret < 0 then (ret, buf, w)
             else if ret \<noteq> RIFT_BOOT_NORMAL K then (ret, buf, w)
             else
               case hid_send_feature_report w report of
                 (ret, w) \<Rightarrow>
                   if ret < 0 then (ret, buf, w)
                   else
                     case hid_get_feature_report (emit (Usleep 10000) w) report of
                       (ret, report, w) \<Rightarrow>
                         if ret < 0 then (ret, buf, w)
                         else (0, r_payload report, w))"

section \<open>Device state machine\<close>

text \<open>
  Modelled from the spec: \<^verbatim>\<open>rift_radio_get_address\<close> and
  \<^verbatim>\<open>rift_get_firmware_version\<close> (rift-radio.c is absent). The first exchanges the
  radio address with the device and returns a status, the second reads the firmware
  version opportunistically; each is one exchange on the main handle.
\<close>

definition rift_radio_get_address ::
  "'p world \<Rightarrow> u8 list \<Rightarrow> int \<times> u8 list \<times> 'p world" where
  "rift_radio_get_address w address =
     (let r = device w (ncalls w);
          w = emit Radio_get_address (w\<lparr>ncalls := Suc (ncalls w)\<rparr>)
      in (reply_ret r,
          if reply_ret r < 0 then address else r_payload (reply_data r), w))"

definition rift_get_firmware_version :: "'p world \<Rightarrow> int \<times> 'p world" where
  "rift_get_firmware_version w =
     (let r = device w (ncalls w)
      in (reply_ret r, emit Get_firmware_version (w\<lparr>ncalls := Suc (ncalls w)\<rparr>)))"

text \<open>
  \<^verbatim>\<open>rift_start\<close> (rift.c, lines 688-784) in three parts: the steps before the position
  table (lines 693-725), the position table (lines 727-731) and the steps after it
  (lines 733-783). A part that returns a negative value has made \<^verbatim>\<open>rift_start\<close>
  return it.
\<close>

definition rift_start_identify ::
  "rift_hid_consts \<Rightarrow> OuvrtRift \<Rightarrow> ('w::len) word world \<Rightarrow>
   int \<times> OuvrtRift \<times> 'w word world" where
  "rift_start_identify K rift w =
     (case (if hmd_type rift = RIFT_CV1 then
              case rift_get_boot_mode K rift w of
                (ret, w) \<Rightarrow>
                  let rift = (if ret = RIFT_BOOT_RADIO_PAIRING K
                              then rift\<lparr>radio_pairing := True\<rparr> else rift)
                  in case rift_radio_get_address w (radio_address rift) of
                       (ret, address, w) \<Rightarrow>
                         let rift = rift\<lparr>radio_address := address\<rparr>
                         in if ret < 0 then (ret, rift, w)
                            else (ret, rift, emit (Tracker_set_radio_address address) w)
            else (0, rift, w)) of
        (ret, rift, w) \<Rightarrow>
          if ret < 0 then (ret, rift, w)
          else
            case rift_get_uuid rift w of
              (ret, rift, w) \<Rightarrow>
                if ret < 0 then (ret, rift, w)
                else
                  let w = (if hmd_type rift = RIFT_CV1 then
                             case rift_get_boot_mode K rift w of
                               (ret, w) \<Rightarrow>
                                 if ret = RIFT_BOOT_NORMAL K
                                 then snd (rift_get_firmware_version w) else w
                           else w)
                  in case rift_get_ranges rift w of
                       (ret, w) \<Rightarrow>
                         if ret < 0 then (ret, rift, w)
                         else
                           case rift_get_imu_calibration rift w of
                             (ret, w) \<Rightarrow>
                               if ret < 0 then (ret, rift, w) else (ret, rift, w))"

fun read_flash_pages ::
  "rift_hid_consts \<Rightarrow> OuvrtRift \<Rightarrow> u8 list \<Rightarrow> u8 list \<Rightarrow> ('w::len) word world \<Rightarrow>
   int \<times> 'w word world" where
  "read_flash_pages K rift [] buf w = (0, w)"
| "read_flash_pages K rift (index # rest) buf w =
     (case rift_read_flash K rift index buf w of
        (ret, buf, w) \<Rightarrow>
          if ret < 0 then (ret, w) else read_flash_pages K rift rest buf w)"

definition rift_start_configure ::
  "rift_hid_consts \<Rightarrow> OuvrtRift \<Rightarrow> ('w::len) word world \<Rightarrow>
   (fault + int) \<times> OuvrtRift \<times> 'w word world" where
  "rift_start_configure K rift w =
     (case (if hmd_type rift = RIFT_CV1
            then read_flash_pages K rift [0, 5, 3, 4, 36, 33] (replicate 64 0) w
            else (0, w)) of
        (ret, w) \<Rightarrow>
          if ret < 0 then (Inr ret, rift, w)
          else
            case rift_get_led_patterns rift w of
              (ret, rift, w) \<Rightarrow>
                if ret < 0 then (Inr ret, rift, w)
                else
                  (case rift_get_config rift w of
                    (Inl f, rift, w) \<Rightarrow> (Inl f, rift, w)
                  | (Inr ret, rift, w) \<Rightarrow>
                      if ret < 0 then (Inr ret, rift, w)
                      else
                        case rift_set_report_rate rift 1000 w of
                          (ret, rift, w) \<Rightarrow>
                            if ret < 0 then (Inr ret, rift, w)
                            else
                              case rift_send_tracking K rift True w of
                                (ret, w) \<Rightarrow>
                                  if ret < 0 then (Inr ret, rift, w)
                                  else
                                    case rift_send_display K rift True True w of
                                      (ret, w) \<Rightarrow>
                                        if ret < 0 then (Inr ret, rift, w)
                                        else
                                          case (if hmd_type rift = RIFT_CV1
                                                then rift_cv1_power_up rift
                                                       (RIFT_CV1_POWER_DISPLAY K OR
                                                        RIFT_CV1_POWER_AUDIO K OR
                                                        RIFT_CV1_POWER_LEDS K) w
                                                else (0, w)) of
                                            (ret, w) \<Rightarrow>
                                              if ret < 0 then (Inr ret, rift, w)
                                              else (Inr 0, rift,
                                                    emit Tracker_register_leds w)))"

definition rift_start ::
  "rift_hid_consts \<Rightarrow> OuvrtRift \<Rightarrow> ('w::len) word world \<Rightarrow>
   (fault + int) \<times> OuvrtRift \<times> 'w word world" where
  "rift_start K rift w =
     (case rift_start_identify K rift w of
        (ret, rift, w) \<Rightarrow>
          if ret < 0 then (Inr ret, rift, w)
          else
            case rift_get_positions K rift w of
              (ret, rift, w) \<Rightarrow>
                if ret < 0 then (Inr ret, rift, w)
                else rift_start_configure K rift w)"


section \<open>Sensor message decoder\<close>

text \<open>
  \<^verbatim>\<open>struct rift_sensor_message\<close> is declared in the absent rift-hid-reports.h: the
  record has the fields the decoder reads, each with the numeric value of the
  little-endian field; \<open>m_sample0\<close> and \<open>m_sample1\<close> are \<^verbatim>\<open>sample[0]\<close> and
  \<^verbatim>\<open>sample[1]\<close>.
\<close>

record imu_raw =
  accel :: be64
  gyro :: be64

record rift_sensor_message =
  m_num_samples :: u8
  m_sample_count :: u16
  m_temperature :: u16
  m_timestamp :: u32
  m_sample0 :: imu_raw
  m_sample1 :: imu_raw
  m_mag0 :: u16
  m_mag1 :: u16
  m_mag2 :: u16
  m_frame_count :: u16
  m_frame_timestamp :: u32
  m_frame_id :: u8
  m_led_pattern_phase :: u8
  m_exposure_count :: u16
  m_exposure_timestamp :: u32

record timespec =
  tv_sec :: int
  tv_nsec :: int

text \<open>
  Modelled from the spec: the fixed length of the sensor message,
  \<^verbatim>\<open>sizeof(struct rift_sensor_message)\<close> of the absent header. \<^verbatim>\<open>rift_thread\<close> reads
  into a 64-byte buffer, skips reads shorter than 64 bytes and hands the decoder
  \<^verbatim>\<open>sizeof(buf)\<close>.
\<close>

definition sizeof_rift_sensor_message :: nat where
  "sizeof_rift_sensor_message = 64"

definition sample_at :: "rift_sensor_message \<Rightarrow> nat \<Rightarrow> imu_raw" where
  "sample_at message i = (if i = 0 then m_sample0 message else m_sample1 message)"

text \<open>
  Line 551: \<^verbatim>\<open>dt = sample_timestamp - rift->last_sample_timestamp\<close>. The subtraction is
  on 64 bits, the result is cut to the \<^verbatim>\<open>int32_t dt\<close>; \<open>sint\<close> reads it.
\<close>

definition sensor_dt :: "OuvrtRift \<Rightarrow> rift_sensor_message \<Rightarrow> u32" where
  "sensor_dt rift message =
     ucast ((ucast (m_timestamp message) :: u64) - last_sample_timestamp rift)"

text \<open>Lines 555-556: the test that sends a message to the gap and jitter branch.\<close>

definition outside_window :: "OuvrtRift \<Rightarrow> rift_sensor_message \<Rightarrow> bool" where
  "outside_window rift message \<longleftrightarrow>
     sint (sensor_dt rift message) <
       uint (m_num_samples message) * report_interval rift - 75 \<or>
     sint (sensor_dt rift message) >
       uint (m_num_samples message) * report_interval rift + 75"

text \<open>
  Lines 588-603: the loop over the embedded samples. \<^verbatim>\<open>sample\<close> is one structure that
  every iteration overwrites in part.
\<close>

function sample_loop ::
  "nat \<Rightarrow> nat \<Rightarrow> rift_sensor_message \<Rightarrow> imu_sample \<Rightarrow> u32 \<Rightarrow> OuvrtRift \<Rightarrow> 'p world \<Rightarrow>
   imu_sample \<times> OuvrtRift \<times> 'p world" where
  "sample_loop num_samples i message sample dt rift w =
     (if i < num_samples then
        let sample = sample
              \<lparr>acceleration := unpack_3x21bit (1 / 10000) (accel (sample_at message i)),
               angular_velocity := unpack_3x21bit (1 / 10000) (gyro (sample_at message i))\<rparr>;
            w = emit (Telemetry_send_imu_sample (dev_id rift) sample) w;
            rift = rift\<lparr>imu_pose :=
                     pose_update ((1 / 1000000) / real num_samples * real_of_int (sint dt))
                       (imu_pose rift) sample\<rparr>;
            w = emit (Telemetry_send_pose (dev_id rift) (imu_pose rift)) w;
            w = emit Debug_imu_fifo_in w
        in sample_loop num_samples (Suc i) message sample dt rift w
      else (sample, rift, w))"
  by pat_completeness auto
termination
  by (relation "measure (\<lambda>(num_samples, i, message, sample, dt, rift, w). num_samples - i)")
     auto

declare sample_loop.simps [simp del]

text \<open>
  Lines 606-610. \<^verbatim>\<open>sample_expo_dt\<close> and \<^verbatim>\<open>dt\<close> are \<^verbatim>\<open>int32_t\<close>, the times
  \<^verbatim>\<open>uint64_t\<close>: C converts both signed values to \<^verbatim>\<open>uint64_t\<close> (\<open>scast\<close>), multiplies
  modulo \<open>2 ^ 64\<close> and divides unsigned (\<open>div\<close> on words).
\<close>

definition exposure_time :: "u64 \<Rightarrow> u64 \<Rightarrow> u32 \<Rightarrow> u32 \<Rightarrow> u64" where
  "exposure_time message_time last_time sample_expo_dt dt =
     message_time - (message_time - last_time) * scast sample_expo_dt div scast dt"

text \<open>Lines 573-624: what the decoder does with a message that passed the gate.\<close>

definition decode_accepted ::
  "OuvrtRift \<Rightarrow> rift_sensor_message \<Rightarrow> u64 \<Rightarrow> u32 \<Rightarrow> 'p world \<Rightarrow>
   fault option \<times> OuvrtRift \<times> 'p world" where
  "decode_accepted rift message message_time dt w =
     (let sample_timestamp = m_timestamp message;
          sample =
            \<lparr>acceleration = \<lparr>x = 0, y = 0, z = 0\<rparr>,
             angular_velocity = \<lparr>x = 0, y = 0, z = 0\<rparr>,
             magnetic_field =
               \<lparr>x = (1 / 10000) * real_of_int (sint (m_mag0 message)),
                y = (1 / 10000) * real_of_int (sint (m_mag1 message)),
                z = (1 / 10000) * real_of_int (sint (m_mag2 message))\<rparr>,
             temperature = (1 / 100) * real_of_int (sint (m_temperature message)),
             time = (1 / 1000000) * real_of_int (uint sample_timestamp)\<rparr>;
          led_pattern_phase = m_led_pattern_phase message;
          exposure_count = m_exposure_count message;
          exposure_timestamp = m_exposure_timestamp message;
          num_samples = (if m_num_samples message > 1 then 2 else 1)
      in case sample_loop num_samples 0 message sample dt rift w of
           (sample, rift, w) \<Rightarrow>
             if uint exposure_count \<noteq> last_exposure_count rift then
               let sample_expo_dt = sample_timestamp - exposure_timestamp
               in if dt = 0 then (Some Division_by_zero, rift, w)
                  else
                    let w = emit (Tracker_add_exposure exposure_timestamp
                                    (exposure_time message_time (last_message_time rift)
                                       sample_expo_dt dt)
                                    led_pattern_phase) w;
                        rift = rift\<lparr>last_exposure_timestamp := exposure_timestamp,
                                    last_exposure_count := uint exposure_count\<rparr>
                    in (None, rift\<lparr>last_message_time := message_time\<rparr>, w)
             else (None, rift\<lparr>last_message_time := message_time\<rparr>, w))"

text \<open>
  \<^verbatim>\<open>rift_decode_sensor_message\<close> (rift.c, lines 515-625). The result is the fault, if
  the call trapped on a division by zero, the device state and the world. In lines
  563-566 \<^verbatim>\<open>dt + 1\<close> is an \<^verbatim>\<open>int\<close> sum of the \<^verbatim>\<open>int32_t dt\<close>: \<open>sint (dt + 1)\<close>, which
  wraps to \<open>- (2 ^ 31)\<close> at \<open>dt = 2 ^ 31 - 1\<close>.
\<close>

definition rift_decode_sensor_message ::
  "OuvrtRift \<Rightarrow> rift_sensor_message \<Rightarrow> nat \<Rightarrow> timespec \<Rightarrow> 'p world \<Rightarrow>
   fault option \<times> OuvrtRift \<times> 'p world" where
  "rift_decode_sensor_message rift message len ts w =
     (if len < sizeof_rift_sensor_message then (None, rift, w)
      else
        let message_time = (word_of_int (tv_sec ts * 1000000000 + tv_nsec ts) :: u64);
            num_samples = m_num_samples message;
            dt = sensor_dt rift message;
            gate = outside_window rift message;
            rift = rift\<lparr>last_sample_timestamp := last_sample_timestamp rift + scast dt\<rparr>
        in if gate then
             let rift = rift\<lparr>last_message_time := message_time\<rparr>
             in if last_sample_timestamp rift - scast dt = 0 then (None, rift, w)
                else if sint dt < 0
                then (None, rift, emit (Print (Got_samples_after num_samples (sint dt))) w)
                else if sint (dt + 1) \<ge> (uint num_samples + 1) * report_interval rift
                then (if report_interval rift = 0 then (Some Division_by_zero, rift, w)
                      else (None, rift,
                            emit (Print (Samples_lost num_samples (sint dt)
                                           (c_div (sint (dt + 1)) (report_interval rift) -
                                            uint num_samples))) w))
                else (None, rift, emit (Print (Too_much_jitter num_samples (sint dt))) w)
           else decode_accepted rift message message_time dt w)"

section \<open>The specification's reading of an LED pattern word\<close>

text \<open>
  These definitions follow the words of the specification, not the code: the \<open>i\<close>-th
  two-bit symbol of a pattern word, the constraint that each of the ten symbols is 1
  (dark) or 3 (bright), and the 10-bit pattern that has bit \<open>i\<close> set exactly when
  symbol \<open>i\<close> is 3.
\<close>

definition symbol :: "u32 \<Rightarrow> nat \<Rightarrow> u32" where
  "symbol p i = drop_bit (2 * i) p AND 3"

definition valid_symbols :: "u32 \<Rightarrow> bool" where
  "valid_symbols p \<longleftrightarrow> list_all (\<lambda>i. symbol p i = 1 \<or> symbol p i = 3) [0..<10]"

definition collapse :: "u32 \<Rightarrow> u32" where
  "collapse p = horner_sum of_bool 2 (map (\<lambda>i. symbol p i = 3) [0..<10])"

section \<open>Concrete devices\<close>

text \<open>
  \<^verbatim>\<open>rift_new\<close> with \<^verbatim>\<open>ouvrt_rift_init\<close> (rift.c, lines 977-1005): the object is
  allocated zeroed, then \<^verbatim>\<open>flicker\<close>, \<^verbatim>\<open>last_sample_timestamp\<close> and the type are set.
\<close>

definition rift_new :: "rift_type \<Rightarrow> OuvrtRift" where
  "rift_new t =
     \<lparr>dev_id = 0, dev_active = False, hmd_type = t, rift_leds = leds_init 0,
      imu_position = \<lparr>x = 0, y = 0, z = 0\<rparr>, uuid = replicate 20 0, report_rate = 0,
      report_interval = 0, flicker = False, reboot = False, boot_mode = 0,
      last_message_time = 0, last_sample_timestamp = 0, last_exposure_timestamp = 0,
      last_exposure_count = 0, radio_pairing = False, radio_address = replicate 5 0,
      imu_pose = []\<rparr>"

text \<open>A device that answers every exchange with success and an all-zero report.\<close>

definition idle_world :: "('w::len) word world" where
  "idle_world =
     \<lparr>device = (\<lambda>n. \<lparr>reply_ret = 0, reply_data = report_init RIFT_CONFIG_REPORT_ID\<rparr>),
      ncalls = 0, trace = []\<rparr>"

text \<open>
  A device that answers every exchange with success and a configuration report of the
  given sample rate, and one whose reports all declare the given number of entries.
\<close>

definition config_world :: "u16 \<Rightarrow> ('w::len) word world" where
  "config_world sr =
     \<lparr>device = (\<lambda>n. \<lparr>reply_ret = 0,
                         reply_data = (report_init RIFT_CONFIG_REPORT_ID)
                                        \<lparr>r_sample_rate := sr\<rparr>\<rparr>),
      ncalls = 0, trace = []\<rparr>"

definition positions_world :: "u16 \<Rightarrow> ('w::len) word world" where
  "positions_world n =
     \<lparr>device = (\<lambda>k. \<lparr>reply_ret = 0,
                         reply_data = (report_init RIFT_POSITION_REPORT_ID)
                                        \<lparr>r_num := n\<rparr>\<rparr>),
      ncalls = 0, trace = []\<rparr>"

text \<open>One choice of values for the constants of the absent header.\<close>

definition K0 :: rift_hid_consts where
  "K0 =
     \<lparr>RIFT_BOOT_NORMAL = 0, RIFT_BOOT_BOOTLOADER = 1, RIFT_BOOT_RADIO_PAIRING = 2,
      RIFT_POSITION_LED = 0, RIFT_POSITION_IMU = 1,
      RIFT_TRACKING_ENABLE = 0x01, RIFT_TRACKING_USE_CARRIER = 0x04,
      RIFT_TRACKING_AUTO_INCREMENT = 0x02, RIFT_TRACKING_VSYNC_OFFSET = 0,
      RIFT_TRACKING_DUTY_CYCLE = 0x7f,
      RIFT_TRACKING_EXPOSURE_US_CV1 = 399, RIFT_TRACKING_PERIOD_US_CV1 = 19200,
      RIFT_TRACKING_EXPOSURE_US_DK2 = 350, RIFT_TRACKING_PERIOD_US_DK2 = 16666,
      RIFT_DISPLAY_READ_PIXEL = 0x04, RIFT_DISPLAY_DIRECT_PENTILE = 0x08,
      RIFT_CV1_POWER_DISPLAY = 0x01, RIFT_CV1_POWER_AUDIO = 0x02,
      RIFT_CV1_POWER_LEDS = 0x04\<rparr>"

text \<open>
  A sensor message with every field zero; a DK2 after bring-up at 1000 Hz that has not
  decoded a message yet; the same device after a message at sample clock 5000 us that
  arrived at 1 ms.
\<close>

definition message0 :: rift_sensor_message where
  "message0 =
     \<lparr>m_num_samples = 0, m_sample_count = 0, m_temperature = 0, m_timestamp = 0,
      m_sample0 = \<lparr>accel = cpu_to_be64 0, gyro = cpu_to_be64 0\<rparr>,
      m_sample1 = \<lparr>accel = cpu_to_be64 0, gyro = cpu_to_be64 0\<rparr>,
      m_mag0 = 0, m_mag1 = 0, m_mag2 = 0, m_frame_count = 0, m_frame_timestamp = 0,
      m_frame_id = 0, m_led_pattern_phase = 0, m_exposure_count = 0,
      m_exposure_timestamp = 0\<rparr>"

definition started_rift :: OuvrtRift where
  "started_rift =
     (rift_new RIFT_DK2)\<lparr>dev_active := True, report_rate := 1000, report_interval := 1000\<rparr>"

definition tracking_rift :: OuvrtRift where
  "tracking_rift =
     started_rift\<lparr>last_message_time := 1000000, last_sample_timestamp := 5000\<rparr>"

text \<open>The effects that forward an IMU sample to telemetry.\<close>

fun is_imu_sample :: "'p event \<Rightarrow> bool" where
  "is_imu_sample (Telemetry_send_imu_sample i s) = True"
| "is_imu_sample e = False"

text \<open>
  A CV1 whose first exchange, the boot-mode read at the beginning of \<^verbatim>\<open>rift_start\<close>,
  fails with \<open>- 5\<close> (\<^verbatim>\<open>-EIO\<close>) and whose later exchanges all succeed: normal boot mode,
  a position table of two entries, one LED pattern (it is exchange 27 that reads the
  pattern table), a sample rate of 1000 Hz.
\<close>

definition boot_read_fails_world :: "('w::len) word world" where
  "boot_read_fails_world =
     \<lparr>device = (\<lambda>n. \<lparr>reply_ret = (if n = 0 then - 5 else 0),
                         reply_data = (report_init RIFT_CONFIG_REPORT_ID)
                           \<lparr>r_sample_rate := 1000, r_num := (if n = 27 then 1 else 2),
                            r_type := 1, r_pattern_length := 10, r_pattern := 0x55555\<rparr>\<rparr>),
      ncalls = 0, trace = []\<rparr>"

text \<open>
  A message with one sample, 1000 us after the clock of \<open>tracking_rift\<close>, that reports
  a new camera exposure stamped 1 us after the sample timestamp.
\<close>

definition late_exposure_message :: rift_sensor_message where
  "late_exposure_message =
     message0\<lparr>m_num_samples := 1, m_timestamp := 6000, m_exposure_count := 1,
              m_exposure_timestamp := 6001\<rparr>"

section \<open>The 21-bit triplet codec\<close>

lemma diff_less_shift: "k \<le> n \<Longrightarrow> (n - k < m) = (n < k + (m::nat))"
  by arith

lemma be64_roundtrip: "be64_to_cpu (cpu_to_be64 w) = w"
  unfolding be64_to_cpu_def cpu_to_be64_def
  apply (rule bit_word_eqI)
  apply (simp add: bit_simps diff_less_shift cong: conj_cong)
  subgoal for n by (cases "bit w n") (simp_all, arith)
  done

lemma bit_pack_word:
  "bit (pack_word vx vy vz) n \<longleftrightarrow>
     (43 \<le> n \<and> n < 64 \<and> bit vx (n - 43)) \<or>
     (22 \<le> n \<and> n < 43 \<and> bit vy (n - 22)) \<or>
     (1 \<le> n \<and> n < 22 \<and> bit vz (n - 1))"
  unfolding pack_word_def
  apply (simp only: bit_or_iff bit_push_bit_iff bit_word_of_int_iff bit_take_bit_iff)
  apply (simp add: diff_less_shift cong: conj_cong)
  apply arith
  done

lemma unpack_top: "sint (signed_drop_bit 43 (pack_word vx vy vz)) = signed_take_bit 20 vx"
  apply (rule bit_eqI)
  subgoal for n
    by (cases "n < 20"; cases "n = 20")
       (simp_all add: bit_sint_iff bit_signed_drop_bit_iff bit_signed_take_bit_iff
                      bit_pack_word min_def)
  done

lemma unpack_middle:
  "sint (signed_drop_bit 43 (push_bit 21 (pack_word vx vy vz))) = signed_take_bit 20 vy"
  apply (rule bit_eqI)
  subgoal for n
    by (cases "n < 20"; cases "n = 20")
       (simp_all add: bit_sint_iff bit_signed_drop_bit_iff bit_signed_take_bit_iff
                      bit_push_bit_iff bit_pack_word min_def)
  done

lemma unpack_bottom:
  "sint (signed_drop_bit 43 (push_bit 42 (pack_word vx vy vz))) = signed_take_bit 20 vz"
  apply (rule bit_eqI)
  subgoal for n
    by (cases "n < 20"; cases "n = 20")
       (simp_all add: bit_sint_iff bit_signed_drop_bit_iff bit_signed_take_bit_iff
                      bit_push_bit_iff bit_pack_word min_def)
  done

lemma signed_take_bit_fits: "fits_21bit v \<Longrightarrow> signed_take_bit 20 v = v"
  by (simp add: fits_21bit_def signed_take_bit_int_eq_self)

text \<open>
  Claim C4. For every triple of signed 21-bit values packed into one big-endian 64-bit
  word (top 21 bits, next 21 bits, bottom 21 bits above the unused bit 0),
  \<open>unpack_3x21bit\<close> returns exactly the three values, each multiplied by the scale
  factor of the caller.
\<close>

theorem unpack_3x21bit_roundtrip:
  assumes "fits_21bit vx" and "fits_21bit vy" and "fits_21bit vz"
  shows "unpack_3x21bit scale (pack_3x21bit vx vy vz) =
           \<lparr>x = scale * real_of_int vx, y = scale * real_of_int vy,
            z = scale * real_of_int vz\<rparr>"
  using assms
  by (simp add: unpack_3x21bit_def pack_3x21bit_def be64_roundtrip unpack_top
                unpack_middle unpack_bottom signed_take_bit_fits Let_def
           del: of_int_sint)

theorem unpack_3x21bit_roundtrip_witness:
  "fits_21bit (- 5) \<and> fits_21bit 7 \<and> fits_21bit (- 1048576) \<and>
   unpack_3x21bit (1 / 10000) (pack_3x21bit (- 5) 7 (- 1048576)) =
     \<lparr>x = (1 / 10000) * real_of_int (- 5), y = (1 / 10000) * real_of_int 7,
      z = (1 / 10000) * real_of_int (- 1048576)\<rparr>"
proof -
  have a: "fits_21bit (- 5)" and b: "fits_21bit 7" and c: "fits_21bit (- 1048576)"
    by (simp_all add: fits_21bit_def)
  show ?thesis
    using a b c unpack_3x21bit_roundtrip [OF a b c, of "1 / 10000"] by simp
qed

section \<open>LED blink patterns\<close>

lemma nat_less_32_cases:
  "(n::nat) < 32 \<Longrightarrow>
     n = 31 \<or> n = 30 \<or> n = 29 \<or> n = 28 \<or> n = 27 \<or> n = 26 \<or> n = 25 \<or> n = 24 \<or>
     n = 23 \<or> n = 22 \<or> n = 21 \<or> n = 20 \<or> n = 19 \<or> n = 18 \<or> n = 17 \<or> n = 16 \<or>
     n = 15 \<or> n = 14 \<or> n = 13 \<or> n = 12 \<or> n = 11 \<or> n = 10 \<or> n = 9 \<or> n = 8 \<or>
     n = 7 \<or> n = 6 \<or> n = 5 \<or> n = 4 \<or> n = 3 \<or> n = 2 \<or> n = 1 \<or> n = 0"
  by arith

lemma bit_55555: "bit (0x55555::u32) n \<longleftrightarrow> n < 20 \<and> even n"
proof (cases "n < 32")
  case True
  show ?thesis
    using nat_less_32_cases [OF True] by (elim disjE) simp_all
next
  case False
  then show ?thesis by (simp add: bit_word_iff_drop_bit_and not_less) 
qed

lemma bit_aaaaa: "bit (0xaaaaa::u32) n \<longleftrightarrow> n < 20 \<and> odd n"
proof (cases "n < 32")
  case True
  show ?thesis
    using nat_less_32_cases [OF True] by (elim disjE) simp_all
next
  case False
  then show ?thesis by (simp add: bit_word_iff_drop_bit_and not_less) 
qed

lemma bit_convert_pattern: "bit (convert_pattern p) n \<longleftrightarrow> n < 10 \<and> bit p (2 * n + 1)"
proof (cases "n < 32")
  case True
  show ?thesis
    using nat_less_32_cases [OF True]
    by (elim disjE) (simp_all add: convert_pattern_def Let_def bit_simps, simp_all add: eval_nat_numeral)
next
  case False
  then show ?thesis by (simp add: bit_word_iff_drop_bit_and not_less) 
qed


lemma bit0_symbol: "bit (symbol p i) 0 = bit p (2 * i)"
  by (simp add: symbol_def bit_simps)
lemma bit1_symbol: "bit (symbol p i) (Suc 0) = bit p (2 * i + 1)"
  by (simp add: symbol_def bit_simps)

lemma and_3_cases: "(s::u32) AND 3 = of_bool (bit s 0) + 2 * of_bool (bit s (Suc 0))"
proof (rule bit_word_eqI)
  fix n assume "n < LENGTH(32)"
  then have n32: "n < 32" by simp
  show "bit (s AND 3) n = bit (of_bool (bit s 0) + 2 * of_bool (bit s (Suc 0)) :: u32) n"
    using nat_less_32_cases [OF n32]
    by (elim disjE; cases "bit s 0"; cases "bit s (Suc 0)"; simp add: bit_simps)
qed

lemma symbol_odd: "(symbol p i = 1 \<or> symbol p i = 3) \<longleftrightarrow> bit p (2 * i)"
  unfolding symbol_def and_3_cases
  by (cases "bit (drop_bit (2 * i) p) 0"; cases "bit (drop_bit (2 * i) p) (Suc 0)")
     (simp_all add: bit_drop_bit_eq)

lemma symbol_3: "symbol p i = 3 \<longleftrightarrow> bit p (2 * i) \<and> bit p (2 * i + 1)"
  unfolding symbol_def and_3_cases
  by (cases "bit (drop_bit (2 * i) p) 0"; cases "bit (drop_bit (2 * i) p) (Suc 0)")
     (simp_all add: bit_drop_bit_eq)

lemma valid_symbols_iff: "valid_symbols p \<longleftrightarrow> (\<forall>i<10. bit p (2 * i))"
  by (auto simp: valid_symbols_def list_all_iff symbol_odd)

lemma drop_bit_20_iff: "drop_bit 20 (p::u32) = 0 \<longleftrightarrow> (\<forall>n. \<not> bit p (n + 20))"
proof
  assume z: "drop_bit 20 p = 0"
  show "\<forall>n. \<not> bit p (n + 20)"
  proof
    fix n
    have "bit (drop_bit 20 p) n = bit p (20 + n)" by (simp add: bit_simps)
    with z show "\<not> bit p (n + 20)" by (simp add: add.commute)
  qed
next
  assume "\<forall>n. \<not> bit p (n + 20)"
  then show "drop_bit 20 p = 0"
    by (intro bit_word_eqI) (simp add: bit_drop_bit_eq add.commute)
qed

lemma bit_not_aaaaa:
  "n < 32 \<Longrightarrow> bit (NOT (0xaaaaa::u32)) n \<longleftrightarrow> \<not> (n < 20 \<and> odd n)"
  by (simp only: bit_not_iff bit_aaaaa) simp

lemma bit_pattern_check:
  "n < 32 \<Longrightarrow> bit (p AND NOT (0xaaaaa::u32)) n \<longleftrightarrow> bit p n \<and> \<not> (n < 20 \<and> odd n)"
  by (simp only: bit_and_iff bit_not_aaaaa)

lemma pattern_check_bits:
  "p AND NOT (0xaaaaa::u32) = 0x55555 \<longleftrightarrow>
     (\<forall>n<32. (bit p n \<and> \<not> (n < 20 \<and> odd n)) = (n < 20 \<and> even n))"
proof
  assume e: "p AND NOT (0xaaaaa::u32) = 0x55555"
  show "\<forall>n<32. (bit p n \<and> \<not> (n < 20 \<and> odd n)) = (n < 20 \<and> even n)"
  proof (intro allI impI)
    fix n :: nat assume "n < 32"
    then have "bit (p AND NOT (0xaaaaa::u32)) n = (bit p n \<and> \<not> (n < 20 \<and> odd n))"
      by (rule bit_pattern_check)
    then show "(bit p n \<and> \<not> (n < 20 \<and> odd n)) = (n < 20 \<and> even n)"
      unfolding e by (simp only: bit_55555)
  qed
next
  assume a: "\<forall>n<32. (bit p n \<and> \<not> (n < 20 \<and> odd n)) = (n < 20 \<and> even n)"
  show "p AND NOT (0xaaaaa::u32) = 0x55555"
  proof (rule bit_word_eqI)
    fix n assume "n < LENGTH(32)"
    then have n32: "n < 32" by simp
    from n32 have "bit (p AND NOT (0xaaaaa::u32)) n = (bit p n \<and> \<not> (n < 20 \<and> odd n))"
      by (rule bit_pattern_check)
    with a n32 show "bit (p AND NOT (0xaaaaa::u32)) n = bit (0x55555::u32) n"
      by (simp only: bit_55555)
  qed
qed

lemma pattern_check_iff:
  "p AND NOT (0xaaaaa::u32) = 0x55555 \<longleftrightarrow> valid_symbols p \<and> drop_bit 20 p = 0"
  unfolding pattern_check_bits valid_symbols_iff drop_bit_20_iff
proof
  assume a: "\<forall>n<32. (bit p n \<and> \<not> (n < 20 \<and> odd n)) = (n < 20 \<and> even n)"
  have "bit p (2 * i)" if "i < 10" for i
    using a that by (auto dest!: spec [of _ "2 * i"])
  moreover have "\<not> bit p (n + 20)" for n
  proof (cases "n + 20 < 32")
    case True
    with a show ?thesis by (auto dest!: spec [of _ "n + 20"])
  next
    case False
    then show ?thesis using bit_imp_le_length [of p "n + 20"] by auto
  qed
  ultimately show "(\<forall>i<10. bit p (2 * i)) \<and> (\<forall>n. \<not> bit p (n + 20))" by blast
next
  assume b: "(\<forall>i<10. bit p (2 * i)) \<and> (\<forall>n. \<not> bit p (n + 20))"
  show "\<forall>n<32. (bit p n \<and> \<not> (n < 20 \<and> odd n)) = (n < 20 \<and> even n)"
  proof (intro allI impI)
    fix n :: nat assume "n < 32"
    show "(bit p n \<and> \<not> (n < 20 \<and> odd n)) = (n < 20 \<and> even n)"
    proof (cases "n < 20")
      case True
      show ?thesis
      proof (cases "even n")
        case True
        then obtain i where "n = 2 * i" by (auto elim: evenE)
        with \<open>n < 20\<close> b show ?thesis by auto
      next
        case False
        with \<open>n < 20\<close> show ?thesis by simp
      qed
    next
      case False
      then have "n = (n - 20) + 20" by simp
      with b have "\<not> bit p n" by metis
      with False show ?thesis by simp
    qed
  qed
qed

lemma bit_collapse: "bit (collapse p) n \<longleftrightarrow> n < 10 \<and> symbol p n = 3"
  by (simp add: collapse_def bit_horner_sum_bit_word_iff cong: conj_cong)

lemma collapse_le: "collapse p \<le> 1023"
proof -
  have "take_bit 10 (collapse p) = collapse p"
    by (rule bit_word_eqI) (simp add: bit_collapse bit_take_bit_iff)
  then have "collapse p = collapse p AND mask 10" by (simp add: take_bit_eq_mask)
  then have "collapse p \<le> mask 10" by (metis word_and_le1)
  then show ?thesis by (simp add: mask_eq_exp_minus_1)
qed

lemma convert_eq_collapse: "valid_symbols p \<Longrightarrow> convert_pattern p = collapse p"
  apply (rule bit_word_eqI)
  apply (auto simp: bit_convert_pattern bit_collapse valid_symbols_iff symbol_3)
  done

lemma decode_led_pattern_eq:
  "decode_led_pattern len p =
     (if len = 10 \<and> valid_symbols p \<and> drop_bit 20 p = 0 then Inr (collapse p)
      else Inl (- 1))"
  unfolding decode_led_pattern_def pattern_check_iff
  by (simp add: convert_eq_collapse)

lemma led_patterns_loop_reject:
  "decode_led_pattern (r_pattern_length report) (r_pattern report) = Inl e \<Longrightarrow>
   led_patterns_loop k num report rift w = (- 1, rift, w)"
  by (cases k) (auto simp: led_patterns_loop.simps decode_led_pattern_eq split: if_splits)

text \<open>
  Claim C3, as the specification states it, fails: a pattern word is 32 bits wide, and a
  word whose ten symbols are all 1 or 3 is still refused when one of its bits 20 to 31
  is set. Here all ten symbols are 1 and bit 20 is set.
\<close>

theorem led_pattern_high_bits_counterexample:
  "valid_symbols 0x155555 \<and> decode_led_pattern 10 0x155555 = Inl (- 1)"
proof -
  have "valid_symbols 0x155555" by code_simp
  moreover have "drop_bit 20 (0x155555 :: u32) \<noteq> 0" by simp
  ultimately show ?thesis by (simp add: decode_led_pattern_eq)
qed

text \<open>
  Claim C3, amended. The decoding accepts a pattern word if and only if the reported
  symbol length is 10, each of the ten two-bit symbols is 1 or 3 and the bits above
  the twenty symbol bits are zero. An accepted word is collapsed (symbol 1 to bit 0,
  symbol 3 to bit 1) to a value of at most 1023. Every other word or length yields the
  error \<open>- 1\<close>, and the loop that reads the patterns then returns the error with the
  stored patterns and the rest of the state as they were.
\<close>

theorem led_pattern_decoding:
  "decode_led_pattern len p =
     (if len = 10 \<and> valid_symbols p \<and> drop_bit 20 p = 0 then Inr (collapse p)
      else Inl (- 1)) \<and>
   collapse p \<le> 1023 \<and>
   (decode_led_pattern (r_pattern_length report) (r_pattern report) = Inl e \<longrightarrow>
      led_patterns_loop k num report rift w = (- 1, rift, w))"
  using decode_led_pattern_eq [of len p] collapse_le [of p]
        led_patterns_loop_reject [of report e k num rift w]
  by blast

theorem led_pattern_decoding_witness:
  "decode_led_pattern 10 0x7DD57 = Inr 417 \<and>
   decode_led_pattern 9 0x55555 = Inl (- 1) \<and>
   led_patterns_loop 0 1
     ((report_init RIFT_LED_PATTERN_REPORT_ID)\<lparr>r_pattern_length := 9, r_pattern := 0x55555\<rparr>)
     (rift_new RIFT_DK2) (idle_world :: 8 word world) =
     (- 1, rift_new RIFT_DK2, idle_world)"
proof -
  have v: "valid_symbols 0x7DD57" by code_simp
  have c: "collapse 0x7DD57 = 417" by code_simp
  have d: "drop_bit 20 (0x7DD57 :: u32) = 0" by simp
  have a: "decode_led_pattern 10 0x7DD57 = Inr 417"
    using led_pattern_decoding [THEN conjunct1, of 10 "0x7DD57"] v c d by simp
  have b: "decode_led_pattern 9 0x55555 = Inl (- 1)"
    using led_pattern_decoding [THEN conjunct1, of 9 "0x55555"] by simp
  have "led_patterns_loop 0 1
     ((report_init RIFT_LED_PATTERN_REPORT_ID)\<lparr>r_pattern_length := 9, r_pattern := 0x55555\<rparr>)
     (rift_new RIFT_DK2) (idle_world :: 8 word world) =
     (- 1, rift_new RIFT_DK2, idle_world)"
    using led_pattern_decoding
            [of 9 "0x55555"
                "(report_init RIFT_LED_PATTERN_REPORT_ID)
                   \<lparr>r_pattern_length := 9, r_pattern := 0x55555\<rparr>" "- 1"
                0 1 "rift_new RIFT_DK2" "idle_world :: 8 word world"] b
    by simp
  with a b show ?thesis by simp
qed

section \<open>Report-rate negotiation\<close>

lemma c_div_nonneg: "0 \<le> a \<Longrightarrow> 0 < b \<Longrightarrow> c_div a b = a div b"
  by (simp add: c_div_def)

text \<open>
  Claim C6, as the specification states it, fails for a device whose sample rate is
  below 5 Hz: the lower bound is applied last and wins. The device reports a sample
  rate of 3 Hz, the change succeeds and the stored report rate is 5 Hz.
\<close>

theorem report_rate_above_sample_rate_counterexample:
  "r_sample_rate (reply_data (device (config_world 3 :: 8 word world) 0)) = 3 \<and>
   fst (rift_set_report_rate (rift_new RIFT_DK2) 1000 (config_world 3 :: 8 word world)) = 0 \<and>
   report_rate (fst (snd (rift_set_report_rate (rift_new RIFT_DK2) 1000
                            (config_world 3 :: 8 word world)))) = 5"
  by (simp add: rift_set_report_rate_def hid_get_feature_report_def
                hid_send_feature_report_def config_world_def emit_def Let_def)

text \<open>
  Claim C6, amended. After a successful rate change the stored report rate is
  \<open>R = max 5 (min rate sample_rate)\<close>: at least 5 Hz always, and at most the device's
  sample rate whenever that is itself at least 5 Hz. The report sent back is the
  report read with \<^verbatim>\<open>packet_interval\<close> set to \<open>sample_rate div R - 1\<close> (as a value
  of the field's width), and the stored report interval is \<open>1000000 div R\<close>. The
  negotiation is exactly one read and one write.
\<close>

theorem rift_set_report_rate_clamps:
  assumes "0 \<le> reply_ret (device w (ncalls w))"
      and "0 \<le> reply_ret (device w (Suc (ncalls w)))"
  shows "let report = (reply_data (device w (ncalls w)))\<lparr>r_id := RIFT_CONFIG_REPORT_ID\<rparr>;
             sr = uint (r_sample_rate report);
             R = max 5 (min rate sr)
         in rift_set_report_rate rift rate w =
              (0, rift\<lparr>report_rate := R, report_interval := 1000000 div R\<rparr>,
               w\<lparr>ncalls := ncalls w + 2,
                 trace := trace w @
                   [Hid_get_feature_report RIFT_CONFIG_REPORT_ID,
                    Hid_send_feature_report
                      (report\<lparr>r_packet_interval := word_of_int (sr div R - 1)\<rparr>)]\<rparr>) \<and>
            5 \<le> R \<and> (5 \<le> sr \<longrightarrow> R \<le> sr)"
proof -
  define sr where "sr = uint (r_sample_rate (reply_data (device w (ncalls w))))"
  define R where "R = max 5 (min rate sr)"
  have R5: "5 \<le> R" using R_def by simp
  have sr0: "0 \<le> sr" using sr_def by simp
  have "rift_set_report_rate rift rate w =
              (0, rift\<lparr>report_rate := R, report_interval := 1000000 div R\<rparr>,
               w\<lparr>ncalls := ncalls w + 2,
                 trace := trace w @
                   [Hid_get_feature_report RIFT_CONFIG_REPORT_ID,
                    Hid_send_feature_report
                      ((reply_data (device w (ncalls w)))
                         \<lparr>r_id := RIFT_CONFIG_REPORT_ID,
                          r_packet_interval := word_of_int (sr div R - 1)\<rparr>)]\<rparr>)"
    using assms R5 sr0 
    unfolding rift_set_report_rate_def hid_get_feature_report_def hid_send_feature_report_def
    by (auto simp add: Let_def emit_def report_init_def sr_def[symmetric] c_div_nonneg
                       R_def max_def min_def)
  moreover have "5 \<le> sr \<longrightarrow> R \<le> sr" using R_def by simp
  moreover have "uint (r_sample_rate ((reply_data (device w (ncalls w)))
                   \<lparr>r_id := RIFT_CONFIG_REPORT_ID\<rparr>)) = sr"
    by (simp add: sr_def)
  ultimately show ?thesis
    using R5 unfolding Let_def by (simp only: R_def [symmetric] simp_thms)
qed

theorem rift_set_report_rate_clamps_witness:
  "rift_set_report_rate (rift_new RIFT_DK2) 2000 (config_world 1000 :: 8 word world) =
     (0, (rift_new RIFT_DK2)\<lparr>report_rate := 1000, report_interval := 1000\<rparr>,
      (config_world 1000)\<lparr>ncalls := 2,
         trace := [Hid_get_feature_report RIFT_CONFIG_REPORT_ID,
                   Hid_send_feature_report
                     ((report_init RIFT_CONFIG_REPORT_ID)
                        \<lparr>r_sample_rate := 1000, r_packet_interval := 0\<rparr>)]\<rparr>)"
proof -
  have a: "0 \<le> reply_ret (device (config_world 1000 :: 8 word world) (ncalls (config_world 1000 :: 8 word world)))"
    by (simp add: config_world_def)
  have b: "0 \<le> reply_ret (device (config_world 1000 :: 8 word world) (Suc (ncalls (config_world 1000 :: 8 word world))))"
    by (simp add: config_world_def)
  have c: "reply_data (device (config_world 1000 :: 8 word world) 0) = (report_init RIFT_CONFIG_REPORT_ID)\<lparr>r_sample_rate := 1000\<rparr>"
    by (simp add: config_world_def)
  have d: "ncalls (config_world 1000 :: 8 word world) = 0" "trace (config_world 1000 :: 8 word world) = []"
    by (simp_all add: config_world_def)
  show ?thesis
    using rift_set_report_rate_clamps [OF a b, of 2000 "rift_new RIFT_DK2"]
    unfolding Let_def d c by (simp add: report_init_def)
qed

section \<open>Flicker mode\<close>



section \<open>Bring-up\<close>

text \<open>
  Claim C7. When the steps of \<^verbatim>\<open>rift_start\<close> before the position table have succeeded
  and the first position report declares more than 45 entries, the position read
  returns the error \<open>- 1\<close> after that one read, and \<^verbatim>\<open>rift_start\<close> returns the same
  error with nothing further done: the world is the one after that read.
\<close>

theorem start_too_many_positions:
  assumes "rift_start_identify K rift w = (r, rift1, w1)" and "0 \<le> r"
      and "0 \<le> reply_ret (device w1 (ncalls w1))"
      and "45 < uint (r_num (reply_data (device w1 (ncalls w1))))"
  shows "rift_get_positions K rift1 w1 =
           (- 1, rift1,
            w1\<lparr>ncalls := Suc (ncalls w1),
               trace := trace w1 @ [Hid_get_feature_report RIFT_POSITION_REPORT_ID]\<rparr>) \<and>
         rift_start K rift w =
           (Inr (- 1), rift1,
            w1\<lparr>ncalls := Suc (ncalls w1),
               trace := trace w1 @ [Hid_get_feature_report RIFT_POSITION_REPORT_ID]\<rparr>)"
proof -
  have p: "rift_get_positions K rift1 w1 =
           (- 1, rift1,
            w1\<lparr>ncalls := Suc (ncalls w1),
               trace := trace w1 @ [Hid_get_feature_report RIFT_POSITION_REPORT_ID]\<rparr>)"
    using assms(3,4)
    by (simp add: rift_get_positions_def hid_get_feature_report_def emit_def Let_def
                  MAX_POSITIONS_def report_init_def)
  show ?thesis
    using assms(1,2) p by (simp add: rift_start_def)
qed

theorem start_too_many_positions_witness:
  "rift_start K0 (rift_new RIFT_DK2) (positions_world 46 :: 8 word world) =
     (Inr (- 1), (rift_new RIFT_DK2)\<lparr>uuid := replicate 20 0\<rparr>,
      (positions_world 46)\<lparr>ncalls := 4,
         trace := [Hid_get_feature_report RIFT_UUID_REPORT_ID,
                   Hid_get_feature_report RIFT_RANGE_REPORT_ID,
                   Hid_get_feature_report RIFT_IMU_CALIBRATION_REPORT_ID,
                   Hid_get_feature_report RIFT_POSITION_REPORT_ID]\<rparr>)"
proof -
  let ?w1 = "(positions_world 46 :: 8 word world)\<lparr>ncalls := 3,
         trace := [Hid_get_feature_report RIFT_UUID_REPORT_ID,
                   Hid_get_feature_report RIFT_RANGE_REPORT_ID,
                   Hid_get_feature_report RIFT_IMU_CALIBRATION_REPORT_ID]\<rparr>"
  have i: "rift_start_identify K0 (rift_new RIFT_DK2) (positions_world 46 :: 8 word world) =
             (0, (rift_new RIFT_DK2)\<lparr>uuid := replicate 20 0\<rparr>, ?w1)"
    by (simp add: rift_start_identify_def rift_new_def positions_world_def
                  rift_get_uuid_def rift_get_ranges_def rift_get_imu_calibration_def
                  hid_get_feature_report_def emit_def Let_def report_init_def)
  have z: "(0::int) \<le> 0" by simp
  have r: "0 \<le> reply_ret (device ?w1 (ncalls ?w1))"
    by (simp add: positions_world_def)
  have n: "45 < uint (r_num (reply_data (device ?w1 (ncalls ?w1))))"
    by (simp add: positions_world_def)
  show ?thesis
    using start_too_many_positions [OF i z r n, THEN conjunct2] by simp
qed

lemma report_init_fields:
  "r_id (report_init i) = i"
  "r_sample_rate (report_init i) = 0"
  "r_packet_interval (report_init i) = 0"
  "r_num (report_init i) = 0"
  "r_index (report_init i) = 0"
  "r_type (report_init i) = 0"
  "r_pattern_length (report_init i) = 0"
  "r_pattern (report_init i) = 0"
  "r_total_rows (report_init i) = 0"
  "r_flags2 (report_init i) = 0"
  "r_components (report_init i) = 0"
  "r_bootload (report_init i) = 0"
  by (simp_all add: report_init_def)

lemmas start_defs =
  rift_start_def rift_start_identify_def rift_start_configure_def
  rift_get_boot_mode_def rift_radio_get_address_def rift_get_firmware_version_def
  rift_get_uuid_def rift_get_ranges_def rift_get_imu_calibration_def
  rift_get_positions_def rift_get_led_patterns_def rift_get_config_def
  rift_set_report_rate_def rift_send_tracking_def rift_send_display_def
  rift_cv1_power_up_def rift_read_flash_def
  hid_get_feature_report_def hid_send_feature_report_def emit_def
  positions_loop.simps led_patterns_loop.simps store_position_def
  decode_led_pattern_def

text \<open>
  Claim C8 fails on the code. Every other step of \<^verbatim>\<open>rift_start\<close> returns a negative
  result to the caller, and \<^verbatim>\<open>rift_read_flash\<close>, \<^verbatim>\<open>rift_radio_start_discovery\<close> and
  \<^verbatim>\<open>rift_radio_stop_discovery\<close> do so for \<^verbatim>\<open>rift_get_boot_mode\<close>; the two calls of
  \<^verbatim>\<open>rift_get_boot_mode\<close> in \<^verbatim>\<open>rift_start\<close> compare the result with a boot mode only,
  and the next assignment overwrites it. Here the boot-mode read at the beginning of
  \<^verbatim>\<open>rift_start\<close> on a CV1 returns \<open>- 5\<close> and \<^verbatim>\<open>rift_start\<close> returns 0.
\<close>

theorem start_ignores_boot_mode_failure:
  "fst (rift_get_boot_mode K0 (rift_new RIFT_CV1) (boot_read_fails_world :: 8 word world)) = - 5 \<and>
   fst (rift_start K0 (rift_new RIFT_CV1) (boot_read_fails_world :: 8 word world)) = Inr 0 \<and>
   hd (trace (snd (snd (rift_start K0 (rift_new RIFT_CV1)
                          (boot_read_fails_world :: 8 word world))))) =
     Hid_get_feature_report RIFT_BOOTLOAD_REPORT_ID \<and>
   last (trace (snd (snd (rift_start K0 (rift_new RIFT_CV1)
                            (boot_read_fails_world :: 8 word world))))) =
     Tracker_register_leds \<and>
   ncalls (snd (snd (rift_start K0 (rift_new RIFT_CV1)
                       (boot_read_fails_world :: 8 word world)))) = 36"
  by (simp add: start_defs boot_read_fails_world_def rift_new_def K0_def Let_def
                MAX_POSITIONS_def leds_init_def c_div_def EINVAL_def report_init_fields)

section \<open>Gap and jitter gate\<close>

lemma gate_branch:
  assumes "sizeof_rift_sensor_message \<le> len" and "outside_window rift message"
  shows "rift_decode_sensor_message rift message len ts w =
     (let dt = sensor_dt rift message;
          n = m_num_samples message;
          rift' = rift\<lparr>last_sample_timestamp := last_sample_timestamp rift + scast dt,
                       last_message_time := word_of_int (tv_sec ts * 1000000000 + tv_nsec ts)\<rparr>
      in if last_sample_timestamp rift = 0 then (None, rift', w)
         else if sint dt < 0 then (None, rift', emit (Print (Got_samples_after n (sint dt))) w)
         else if sint (dt + 1) \<ge> (uint n + 1) * report_interval rift
         then (if report_interval rift = 0 then (Some Division_by_zero, rift', w)
               else (None, rift', emit (Print (Samples_lost n (sint dt)
                       (c_div (sint (dt + 1)) (report_interval rift) - uint n))) w))
         else (None, rift', emit (Print (Too_much_jitter n (sint dt))) w))"
  using assms by (simp add: rift_decode_sensor_message_def Let_def)

text \<open>
  Claim C1, as the specification states it, fails: the decoder adds \<open>dt\<close> to the
  unwrapped sample clock before the gate (line 553), so a message outside the window
  moves the clock. The clock is at 5000, the message carries 9000 with one sample at
  a report interval of 1000: the delta 4000 is outside the window and the clock is
  9000 afterwards.
\<close>

theorem gate_advances_clock_counterexample:
  "outside_window tracking_rift (message0\<lparr>m_num_samples := 1, m_timestamp := 9000\<rparr>) \<and>
   last_sample_timestamp tracking_rift = 5000 \<and>
   last_sample_timestamp
     (fst (snd (rift_decode_sensor_message tracking_rift
                  (message0\<lparr>m_num_samples := 1, m_timestamp := 9000\<rparr>) 64
                  \<lparr>tv_sec = 0, tv_nsec = 2000000\<rparr> (idle_world :: 8 word world)))) = 9000"
proof -
  have a: "sizeof_rift_sensor_message \<le> 64" by (simp add: sizeof_rift_sensor_message_def)
  have d: "sensor_dt tracking_rift (message0\<lparr>m_num_samples := 1, m_timestamp := 9000\<rparr>) = 4000"
    by (simp add: sensor_dt_def tracking_rift_def started_rift_def message0_def)
  have b: "outside_window tracking_rift (message0\<lparr>m_num_samples := 1, m_timestamp := 9000\<rparr>)"
    by (simp add: outside_window_def d) (simp add: tracking_rift_def started_rift_def message0_def)
  have l: "last_sample_timestamp tracking_rift = 5000" by (simp add: tracking_rift_def)
  show ?thesis
    using b l by (simp add: gate_branch [OF a b] Let_def d)
qed

text \<open>
  Claim C1, amended. For a device whose report interval is not zero (no rate
  negotiation stores zero) and every full-length sensor message whose delta is outside
  the window \<open>num_samples * report_interval \<plusminus> 75\<close>, the decoder sets the
  message-time anchor, has advanced the unwrapped sample clock by \<open>dt\<close>, and returns
  without a fault: every other field of the device state (the exposure bookkeeping
  and the pose among them) is as before, and the only effect is at most one
  diagnostic: no IMU sample is forwarded and the tracker is not notified.
\<close>

theorem gate_rejects_frame:
  assumes "sizeof_rift_sensor_message \<le> len" and "outside_window rift message"
      and "report_interval rift \<noteq> 0"
  shows "\<exists>ds. rift_decode_sensor_message rift message len ts w =
           (None, rift\<lparr>last_sample_timestamp :=
                       last_sample_timestamp rift + scast (sensor_dt rift message),
                    last_message_time :=
                       word_of_int (tv_sec ts * 1000000000 + tv_nsec ts)\<rparr>,
            w\<lparr>trace := trace w @ map Print ds\<rparr>) \<and> length ds \<le> 1"
proof -
  let ?r = "rift\<lparr>last_sample_timestamp :=
                       last_sample_timestamp rift + scast (sensor_dt rift message),
                    last_message_time :=
                       word_of_int (tv_sec ts * 1000000000 + tv_nsec ts)\<rparr>"
  have none: "\<exists>ds. (None :: fault option, ?r, w) =
                    (None, ?r, w\<lparr>trace := trace w @ map Print ds\<rparr>) \<and>
                  length ds \<le> 1"
    by (rule exI [of _ "[]"]) simp
  have one: "\<exists>ds. (None :: fault option, ?r, emit (Print d) w) =
                    (None, ?r, w\<lparr>trace := trace w @ map Print ds\<rparr>) \<and>
                  length ds \<le> 1" for d
    by (rule exI [of _ "[d]"]) (simp add: emit_def)
  show ?thesis
    unfolding gate_branch [OF assms(1,2)] Let_def
    apply (simp only: assms(3) if_False split: if_split)
    apply (simp only: none one simp_thms)
    done
qed

theorem gate_rejects_frame_witness:
  "sizeof_rift_sensor_message \<le> 64 \<and>
   outside_window tracking_rift (message0\<lparr>m_num_samples := 1, m_timestamp := 9000\<rparr>) \<and>
   report_interval tracking_rift \<noteq> 0 \<and>
   (\<exists>ds. rift_decode_sensor_message tracking_rift
             (message0\<lparr>m_num_samples := 1, m_timestamp := 9000\<rparr>) 64
             \<lparr>tv_sec = 0, tv_nsec = 2000000\<rparr> (idle_world :: 8 word world) =
           (None, tracking_rift\<lparr>last_sample_timestamp := 9000, last_message_time := 2000000\<rparr>,
            idle_world\<lparr>trace := map Print ds\<rparr>) \<and> length ds \<le> 1)"
proof -
  have a: "sizeof_rift_sensor_message \<le> 64" by (simp add: sizeof_rift_sensor_message_def)
  have d: "sensor_dt tracking_rift (message0\<lparr>m_num_samples := 1, m_timestamp := 9000\<rparr>) = 4000"
    by (simp add: sensor_dt_def tracking_rift_def started_rift_def message0_def)
  have b: "outside_window tracking_rift (message0\<lparr>m_num_samples := 1, m_timestamp := 9000\<rparr>)"
    by (simp add: outside_window_def d) (simp add: tracking_rift_def started_rift_def message0_def)
  have l: "last_sample_timestamp tracking_rift = 5000" by (simp add: tracking_rift_def)
  have t: "trace (idle_world :: 8 word world) = []" by (simp add: idle_world_def)
  have i: "report_interval tracking_rift \<noteq> 0"
    by (simp add: tracking_rift_def started_rift_def)
  show ?thesis
    using a b i gate_rejects_frame [OF a b i, of "\<lparr>tv_sec = 0, tv_nsec = 2000000\<rparr>"
                                      "idle_world :: 8 word world"]
    by (simp add: d l t)
qed

text \<open>
  Where \<^verbatim>\<open>dt + 1\<close> does not wrap. A delta of the form \<open>I * (n + 5)\<close> with a sample
  count \<open>n\<close> of one byte is never \<open>2 ^ 31 - 1\<close>, which has no divisor from 5 to 260.
\<close>

lemma sint_plus_one:
  fixes d :: u32
  assumes "sint d \<noteq> 2147483647"
  shows "sint (d + 1) = sint d + 1"
proof -
  have "sint d < 2 ^ (LENGTH(32) - 1)" by (rule sint_lt)
  moreover have "- (2 ^ (LENGTH(32) - 1)) \<le> sint d" by (rule sint_ge)
  ultimately have r: "- (2 ^ 31) \<le> sint d + 1" "sint d + 1 < 2 ^ 31"
    using assms by simp_all
  have "sint (d + 1) = signed_take_bit 31 (sint d + 1)"
    by (simp add: sint_word_ariths)
  then show ?thesis using r by (simp add: signed_take_bit_int_eq_self)
qed
lemma int_max_no_factor: "list_all (\<lambda>k. (2147483647::int) mod k \<noteq> 0) [5..260]"
  by code_simp

lemma loss_delta_below_max:
  fixes n :: u8
  assumes "d = I * (uint n + 5)"
  shows "d \<noteq> 2147483647"
proof
  assume "d = 2147483647"
  then have e: "2147483647 = (uint n + 5) * I" using assms by (simp add: mult.commute)
  have "uint n < 2 ^ LENGTH(8)" by (rule uint_lt2p)
  then have "5 \<le> uint n + 5 \<and> uint n + 5 \<le> 260" by simp
  then have "uint n + 5 \<in> set [5..260]" by (simp only: set_upto atLeastAtMost_iff)
  with int_max_no_factor have m: "(2147483647::int) mod (uint n + 5) \<noteq> 0"
    unfolding list_all_iff by (rule bspec)
  have "(uint n + 5) dvd (2147483647::int)" using e by (rule dvdI)
  then have "(2147483647::int) mod (uint n + 5) = 0" by (simp only: dvd_eq_mod_eq_0)
  with m show False by contradiction
qed
text \<open>
  Claim C2, as the specification states it, fails for the first message after
  initialisation: when the sample clock was zero before the message, the decoder
  returns at line 559 without any report. The device has not decoded a message yet,
  the report interval is 1000 and the message carries one sample at 6000, a delta of
  \<open>1000 * (1 + 5)\<close>: nothing is reported.
\<close>

theorem first_message_loss_counterexample:
  "sint (sensor_dt started_rift (message0\<lparr>m_num_samples := 1, m_timestamp := 6000\<rparr>)) =
     report_interval started_rift *
       (uint (m_num_samples (message0\<lparr>m_num_samples := 1, m_timestamp := 6000\<rparr>)) + 5) \<and>
   rift_decode_sensor_message started_rift
     (message0\<lparr>m_num_samples := 1, m_timestamp := 6000\<rparr>) 64
     \<lparr>tv_sec = 0, tv_nsec = 2000000\<rparr> (idle_world :: 8 word world) =
     (None, started_rift\<lparr>last_sample_timestamp := 6000, last_message_time := 2000000\<rparr>,
      idle_world)"
proof -
  let ?m = "message0\<lparr>m_num_samples := 1, m_timestamp := 6000\<rparr>"
  have a: "sizeof_rift_sensor_message \<le> 64" by (simp add: sizeof_rift_sensor_message_def)
  have d: "sensor_dt started_rift ?m = 6000"
    by (simp add: sensor_dt_def started_rift_def rift_new_def message0_def)
  have i: "report_interval started_rift = 1000" by (simp add: started_rift_def)
  have l: "last_sample_timestamp started_rift = 0"
    by (simp add: started_rift_def rift_new_def)
  have b: "outside_window started_rift ?m"
    by (simp add: outside_window_def d i)
  show ?thesis
    by (simp add: gate_branch [OF a b] Let_def d i l)
qed

text \<open>
  Claim C2, amended. For a full-length sensor message with \<open>n\<close> samples whose delta is
  \<open>dt = I * (n + 5)\<close>, where the report interval \<open>I\<close> is above 15 us (so that five
  intervals exceed the jitter allowance of 75 us) and the sample clock was not zero
  before the message, the decoder classifies the message as sample loss, reports
  \<open>(dt + 1) / I - n = 5\<close> lost samples and forwards no IMU sample.
\<close>

theorem loss_reported:
  assumes "sizeof_rift_sensor_message \<le> len"
      and "sint (sensor_dt rift message) =
             report_interval rift * (uint (m_num_samples message) + 5)"
      and "15 < report_interval rift"
      and "last_sample_timestamp rift \<noteq> 0"
  shows "outside_window rift message \<and>
         rift_decode_sensor_message rift message len ts w =
           (None,
            rift\<lparr>last_sample_timestamp :=
                    last_sample_timestamp rift + scast (sensor_dt rift message),
                 last_message_time := word_of_int (tv_sec ts * 1000000000 + tv_nsec ts)\<rparr>,
            w\<lparr>trace := trace w @
                 [Print (Samples_lost (m_num_samples message)
                           (sint (sensor_dt rift message)) 5)]\<rparr>)"
proof -
  let ?I = "report_interval rift" and ?n = "uint (m_num_samples message)"
  let ?dt = "sint (sensor_dt rift message)"
  have n0: "0 \<le> ?n" by simp
  have I: "15 < ?I" by (rule assms(3))
  have dt: "?dt = ?I * (?n + 5)" by (rule assms(2))
  have w1: "?I * (?n + 5) = ?n * ?I + 5 * ?I" by (simp add: algebra_simps)
  have out: "outside_window rift message"
    unfolding outside_window_def dt w1 using I by simp
  have nonneg: "0 \<le> ?I * (?n + 5)" using I n0 by simp
  have c2: "\<not> ?dt < 0" unfolding dt using nonneg by simp
  have "?dt \<noteq> 2147483647" using dt by (rule loss_delta_below_max)
  then have s1: "sint (sensor_dt rift message + 1) = ?dt + 1" by (rule sint_plus_one)
  have c3: "(?n + 1) * ?I \<le> sint (sensor_dt rift message + 1)"
    unfolding s1 dt using I n0 by (simp add: algebra_simps)
  have c4: "?I \<noteq> 0" using I by simp
  have "(?I * (?n + 5) + 1) div ?I = ?n + 5"
    using I by (simp add: mult.commute)
  then have cnt: "c_div (sint (sensor_dt rift message + 1)) ?I - ?n = 5"
    unfolding s1 dt using nonneg I by (simp add: c_div_nonneg)
  show ?thesis
    unfolding gate_branch [OF assms(1) out] Let_def
    using out assms(4) c2 c3 c4 cnt by (simp add: emit_def)
qed


theorem loss_reported_witness:
  "sizeof_rift_sensor_message \<le> 64 \<and>
   sint (sensor_dt tracking_rift (message0\<lparr>m_num_samples := 1, m_timestamp := 11000\<rparr>)) =
     report_interval tracking_rift *
       (uint (m_num_samples (message0\<lparr>m_num_samples := 1, m_timestamp := 11000\<rparr>)) + 5) \<and>
   15 < report_interval tracking_rift \<and> last_sample_timestamp tracking_rift \<noteq> 0 \<and>
   rift_decode_sensor_message tracking_rift
     (message0\<lparr>m_num_samples := 1, m_timestamp := 11000\<rparr>) 64
     \<lparr>tv_sec = 0, tv_nsec = 2000000\<rparr> (idle_world :: 8 word world) =
     (None, tracking_rift\<lparr>last_sample_timestamp := 11000, last_message_time := 2000000\<rparr>,
      idle_world\<lparr>trace := [Print (Samples_lost 1 6000 5)]\<rparr>)"
proof -
  let ?m = "message0\<lparr>m_num_samples := 1, m_timestamp := 11000\<rparr>"
  have a: "sizeof_rift_sensor_message \<le> 64" by (simp add: sizeof_rift_sensor_message_def)
  have d: "sensor_dt tracking_rift ?m = 6000"
    by (simp add: sensor_dt_def tracking_rift_def started_rift_def message0_def)
  have i: "report_interval tracking_rift = 1000"
    by (simp add: tracking_rift_def started_rift_def)
  have l: "last_sample_timestamp tracking_rift = 5000"
    by (simp add: tracking_rift_def)
  have b: "sint (sensor_dt tracking_rift ?m) =
             report_interval tracking_rift * (uint (m_num_samples ?m) + 5)"
    by (simp add: d i)
  have c: "15 < report_interval tracking_rift" by (simp add: i)
  have e: "last_sample_timestamp tracking_rift \<noteq> 0" by (simp add: l)
  have t: "trace (idle_world :: 8 word world) = []" by (simp add: idle_world_def)
  show ?thesis
    using a b c e
          loss_reported [OF a b c e, THEN conjunct2, of "\<lparr>tv_sec = 0, tv_nsec = 2000000\<rparr>"
                           "idle_world :: 8 word world"]
    by (simp add: d l t)
qed

section \<open>Accepted messages\<close>

lemma sample_loop_effects:
  "sample_loop n i message sample dt rift w = (s', rift', w') \<Longrightarrow>
     length (filter is_imu_sample (trace w')) =
       length (filter is_imu_sample (trace w)) + (n - i) \<and>
     length (imu_pose rift') = length (imu_pose rift) + (n - i) \<and>
     rift' = rift\<lparr>imu_pose := imu_pose rift'\<rparr>"
proof (induction n i message sample dt rift w rule: sample_loop.induct)
  case (1 num_samples i message sample dt rift w)
  show ?case
  proof (cases "i < num_samples")
    case True
    let ?s = "sample\<lparr>acceleration := unpack_3x21bit (1 / 10000) (accel (sample_at message i)),
               angular_velocity := unpack_3x21bit (1 / 10000) (gyro (sample_at message i))\<rparr>"
    let ?r = "rift\<lparr>imu_pose :=
                     pose_update ((1 / 1000000) / real num_samples * real_of_int (sint dt))
                       (imu_pose rift) ?s\<rparr>"
    let ?w = "emit Debug_imu_fifo_in (emit (Telemetry_send_pose (dev_id ?r) (imu_pose ?r))
                (emit (Telemetry_send_imu_sample (dev_id rift) ?s) w))"
    have step: "sample_loop num_samples (Suc i) message ?s dt ?r ?w = (s', rift', w')"
      using "1.prems" True by (subst (asm) sample_loop.simps) (simp add: Let_def)
    have ih: "length (filter is_imu_sample (trace w')) =
                length (filter is_imu_sample (trace ?w)) + (num_samples - Suc i) \<and>
              length (imu_pose rift') = length (imu_pose ?r) + (num_samples - Suc i) \<and>
              rift' = ?r\<lparr>imu_pose := imu_pose rift'\<rparr>"
      using "1.IH" [OF True refl refl refl refl refl step] .
    then show ?thesis
      using True by (simp add: emit_def pose_update_def) arith
  next
    case False
    then show ?thesis
      using "1.prems" by (subst (asm) sample_loop.simps) auto
  qed
qed

lemma decode_accepted_effects:
  "decode_accepted rift message message_time dt w = (f, rift', w') \<Longrightarrow>
     length (filter is_imu_sample (trace w')) =
       length (filter is_imu_sample (trace w)) + (if 1 < m_num_samples message then 2 else 1) \<and>
     length (imu_pose rift') =
       length (imu_pose rift) + (if 1 < m_num_samples message then 2 else 1)"
  unfolding decode_accepted_def Let_def
  by (auto split: prod.splits if_splits dest!: sample_loop_effects simp: emit_def)

text \<open>
  Claim C10. For every full-length sensor message that passes the gate, the decoder
  forwards exactly two IMU samples to telemetry and to the pose integrator when the
  \<^verbatim>\<open>num_samples\<close> byte is greater than 1, and exactly one otherwise, also when the
  byte is 0.
\<close>

theorem accepted_message_sample_count:
  assumes "sizeof_rift_sensor_message \<le> len" and "\<not> outside_window rift message"
  shows "length (filter is_imu_sample
           (trace (snd (snd (rift_decode_sensor_message rift message len ts w))))) =
         length (filter is_imu_sample (trace w)) +
           (if 1 < m_num_samples message then 2 else 1) \<and>
         length (imu_pose (fst (snd (rift_decode_sensor_message rift message len ts w)))) =
         length (imu_pose rift) + (if 1 < m_num_samples message then 2 else 1)"
proof -
  let ?T = "word_of_int (tv_sec ts * 1000000000 + tv_nsec ts) :: u64"
  let ?dt = "sensor_dt rift message"
  let ?r = "rift\<lparr>last_sample_timestamp := last_sample_timestamp rift + scast ?dt\<rparr>"
  have d: "rift_decode_sensor_message rift message len ts w =
             decode_accepted ?r message ?T ?dt w"
    using assms by (simp add: rift_decode_sensor_message_def Let_def)
  obtain f rift' w' where r: "decode_accepted ?r message ?T ?dt w = (f, rift', w')"
    by (cases "decode_accepted ?r message ?T ?dt w") auto
  show ?thesis
    unfolding d r using decode_accepted_effects [OF r] by simp
qed

theorem accepted_message_sample_count_witness:
  "sizeof_rift_sensor_message \<le> 64 \<and>
   \<not> outside_window tracking_rift (message0\<lparr>m_timestamp := 5000\<rparr>) \<and>
   m_num_samples (message0\<lparr>m_timestamp := 5000\<rparr>) = 0 \<and>
   length (filter is_imu_sample
     (trace (snd (snd (rift_decode_sensor_message tracking_rift
                         (message0\<lparr>m_timestamp := 5000\<rparr>) 64
                         \<lparr>tv_sec = 0, tv_nsec = 2000000\<rparr>
                         (idle_world :: 8 word world)))))) = 1"
proof -
  let ?m = "message0\<lparr>m_timestamp := 5000\<rparr>"
  have a: "sizeof_rift_sensor_message \<le> 64" by (simp add: sizeof_rift_sensor_message_def)
  have d: "sensor_dt tracking_rift ?m = 0"
    by (simp add: sensor_dt_def tracking_rift_def started_rift_def message0_def)
  have n: "m_num_samples ?m = 0" by (simp add: message0_def)
  have b: "\<not> outside_window tracking_rift ?m"
    by (simp add: outside_window_def d n)
  have t: "trace (idle_world :: 8 word world) = []" by (simp add: idle_world_def)
  show ?thesis
    using a b n
          accepted_message_sample_count [OF a b, THEN conjunct1,
             of "\<lparr>tv_sec = 0, tv_nsec = 2000000\<rparr>" "idle_world :: 8 word world"]
    by (simp add: t)
qed


section \<open>Exposure correlation\<close>

text \<open>
  What the tracker is told when an accepted message carries a new exposure counter.
\<close>

lemma accepted_exposure:
  assumes "sizeof_rift_sensor_message \<le> len" and "\<not> outside_window rift message"
      and "uint (m_exposure_count message) \<noteq> last_exposure_count rift"
      and "sensor_dt rift message \<noteq> 0"
  shows "last (trace (snd (snd (rift_decode_sensor_message rift message len ts w)))) =
           Tracker_add_exposure (m_exposure_timestamp message)
             (exposure_time (word_of_int (tv_sec ts * 1000000000 + tv_nsec ts))
                (last_message_time rift)
                (m_timestamp message - m_exposure_timestamp message)
                (sensor_dt rift message))
             (m_led_pattern_phase message)"
proof -
  let ?T = "word_of_int (tv_sec ts * 1000000000 + tv_nsec ts) :: u64"
  let ?dt = "sensor_dt rift message"
  let ?r = "rift\<lparr>last_sample_timestamp := last_sample_timestamp rift + scast ?dt\<rparr>"
  have d: "rift_decode_sensor_message rift message len ts w =
             decode_accepted ?r message ?T ?dt w"
    using assms(1,2) by (simp add: rift_decode_sensor_message_def Let_def)
  let ?sample =
        "\<lparr>acceleration = \<lparr>x = 0, y = 0, z = 0\<rparr>,
          angular_velocity = \<lparr>x = 0, y = 0, z = 0\<rparr>,
          magnetic_field =
            \<lparr>x = (1 / 10000) * real_of_int (sint (m_mag0 message)),
             y = (1 / 10000) * real_of_int (sint (m_mag1 message)),
             z = (1 / 10000) * real_of_int (sint (m_mag2 message))\<rparr>,
          temperature = (1 / 100) * real_of_int (sint (m_temperature message)),
          time = (1 / 1000000) * real_of_int (uint (m_timestamp message))\<rparr>"
  obtain s' r' w' where
    loop: "sample_loop (if m_num_samples message > 1 then 2 else 1) 0 message ?sample ?dt ?r w =
             (s', r', w')"
    using prod_cases3 by blast
  have e: "r' = ?r\<lparr>imu_pose := imu_pose r'\<rparr>"
    using sample_loop_effects [OF loop] by blast
  have c: "last_exposure_count r' = last_exposure_count rift"
    by (subst e) simp
  have m: "last_message_time r' = last_message_time rift"
    by (subst e) simp
  show ?thesis
    unfolding d decode_accepted_def Let_def loop
    using assms(3,4) by (simp add: c m emit_def)
qed

text \<open>
  Where the arithmetic of lines 608-610 is the arithmetic of the specification: a
  non-negative \<open>k\<close>, a positive \<open>dt\<close>, message times in order, a product below
  \<open>2 ^ 64\<close> and an exposure not before time zero.
\<close>

lemma uint_scast_nonneg:
  fixes k :: u32
  assumes "0 \<le> sint k"
  shows "uint (scast k :: u64) = sint k"
proof -
  have "sint k < 2 ^ (LENGTH(32) - 1)" by (rule sint_lt)
  then have "sint k < 2 ^ 64" by simp
  have "uint (scast k :: u64) = sint k mod 2 ^ LENGTH(64)"
    unfolding scast_eq by (rule uint_word_of_int)
  also have "\<dots> = sint k"
    using assms \<open>sint k < 2 ^ 64\<close> by simp
  finally show ?thesis .
qed

lemma exposure_time_exact:
  fixes T1 T0 :: u64 and k dt :: u32
  assumes k: "0 \<le> sint k" and dt: "0 < sint dt" and le: "T0 \<le> T1"
      and fits: "(uint T1 - uint T0) * sint k < 2 ^ 64"
      and before: "(uint T1 - uint T0) * sint k div sint dt \<le> uint T1"
  shows "uint (exposure_time T1 T0 k dt) =
           uint T1 - (uint T1 - uint T0) * sint k div sint dt"
proof -
  have a: "uint (T1 - T0) = uint T1 - uint T0"
    using le by (simp add: uint_minus_simple_alt)
  have b: "uint (scast k :: u64) = sint k" using k by (rule uint_scast_nonneg)
  have c: "uint (scast dt :: u64) = sint dt" using dt by (simp add: uint_scast_nonneg)
  have "uint (T1 - T0) * uint (scast k :: u64) < 2 ^ LENGTH(64)"
    unfolding a b using fits by simp
  then have "uint ((T1 - T0) * scast k) = uint (T1 - T0) * uint (scast k :: u64)"
    by (simp only: uint_mult_lem)
  then have p: "uint ((T1 - T0) * scast k) = (uint T1 - uint T0) * sint k"
    by (simp only: a b)
  have q: "uint ((T1 - T0) * scast k div scast dt) = (uint T1 - uint T0) * sint k div sint dt"
    by (simp only: uint_div p c)
  have "(T1 - T0) * scast k div scast dt \<le> T1"
    using before by (simp only: word_le_def q)
  then have "uint (T1 - (T1 - T0) * scast k div scast dt) =
               uint T1 - uint ((T1 - T0) * scast k div scast dt)"
    by (simp only: uint_minus_simple_alt)
  then show ?thesis
    unfolding exposure_time_def by (simp only: q)
qed

text \<open>
  Claim C5 fails on the code when \<open>k\<close> is negative. \<^verbatim>\<open>sample_expo_dt\<close> is declared
  \<^verbatim>\<open>int32_t\<close> and computed through a cast to \<^verbatim>\<open>int32_t\<close>, but the product with the
  \<^verbatim>\<open>uint64_t\<close> time difference and the division by \<^verbatim>\<open>dt\<close> are unsigned. With
  \<open>T0\<close> = 1000000 ns, \<open>T1\<close> = 2000000 ns, \<open>dt\<close> = 1000 and \<open>k\<close> = -1 the
  specification's \<open>T1 - (T1 - T0) * k / dt\<close> is 2001000; the tracker is told
  18428297329637843065.
\<close>

theorem exposure_negative_offset:
  "\<not> outside_window tracking_rift late_exposure_message \<and>
   sint (sensor_dt tracking_rift late_exposure_message) = 1000 \<and>
   sint (m_timestamp late_exposure_message -
         m_exposure_timestamp late_exposure_message) = - 1 \<and>
   last_message_time tracking_rift = 1000000 \<and>
   last (trace (snd (snd (rift_decode_sensor_message tracking_rift late_exposure_message 64
                            \<lparr>tv_sec = 0, tv_nsec = 2000000\<rparr>
                            (idle_world :: 8 word world))))) =
     Tracker_add_exposure 6001 18428297329637843065 0 \<and>
   (2000000 - (2000000 - 1000000) * (- 1) div 1000 :: int) = 2001000"
proof -
  have a: "sizeof_rift_sensor_message \<le> 64" by (simp add: sizeof_rift_sensor_message_def)
  have d: "sensor_dt tracking_rift late_exposure_message = 1000"
    by (simp add: sensor_dt_def tracking_rift_def started_rift_def late_exposure_message_def)
  have n: "m_num_samples late_exposure_message = 1"
    and ts: "m_timestamp late_exposure_message = 6000"
    and et: "m_exposure_timestamp late_exposure_message = 6001"
    and ec: "m_exposure_count late_exposure_message = 1"
    and ph: "m_led_pattern_phase late_exposure_message = 0"
    by (simp_all add: late_exposure_message_def message0_def)
  have i: "report_interval tracking_rift = 1000"
    and l: "last_message_time tracking_rift = 1000000"
    and c: "last_exposure_count tracking_rift = 0"
    by (simp_all add: tracking_rift_def started_rift_def rift_new_def)
  have b: "\<not> outside_window tracking_rift late_exposure_message"
    by (simp add: outside_window_def d n i)
  have e: "uint (m_exposure_count late_exposure_message) \<noteq> last_exposure_count tracking_rift"
    by (simp add: ec c)
  have z: "sensor_dt tracking_rift late_exposure_message \<noteq> 0" by (simp add: d)
  have v: "exposure_time 2000000 1000000 (- 1) 1000 = 18428297329637843065"
    by (simp add: exposure_time_def)
  show ?thesis
    using b accepted_exposure [OF a b e z, of "\<lparr>tv_sec = 0, tv_nsec = 2000000\<rparr>"
                                 "idle_world :: 8 word world"]
    by (simp add: d ts et ph l v)
qed

end
